theory Spec2Isabelle
  imports Complex_Main "HOL-Library.Word" "HOL-Library.Signed_Division" "HOL-Library.Log_Nat"
begin

section \<open>Bracketed lists of numbers (\<open>interpret_bracketed_list\<close>)\<close>

text \<open>
  \<open>std::stod\<close> belongs to the C++ library, not to the repository, so the parser takes the
  conversion as a parameter. Its three documented outcomes are kept apart: a value, the
  exception \<open>std::invalid_argument\<close> (no conversion could be performed) and the exception
  \<open>std::out_of_range\<close>. A \<open>double\<close> is idealised as the real number it denotes.
\<close>

datatype stod_result = Converted real | Invalid_argument | Out_of_range

text \<open>
  The ways in which \<open>interpret_bracketed_list\<close> does not return. The first three print
  ``error parsing command line options (bracketed list)'' and call \<open>exit(1)\<close>; the last
  one is the \<open>std::out_of_range\<close> of \<open>std::stod\<close>, for which the function has no handler.
\<close>

datatype list_error =
    Cannot_interpret_list string
  | Cannot_find_matching_brackets string
  | Cannot_interpret_number string
  | Uncaught_out_of_range

definition left_brackets :: string where
  "left_brackets = ''[({''"

definition right_brackets :: string where
  "right_brackets = ''])}''"

text \<open>
  The search loop over the bracket styles: \<open>find_bracket list i\<close> is the value of
  \<open>i_bracket\<close> after the iterations \<open>i, i + 1, \<dots>\<close>, which is \<open>size left_brackets\<close> when no
  style matches. It is only called on a list of size at least 2.
\<close>

function find_bracket :: "string \<Rightarrow> nat \<Rightarrow> nat" where
  "find_bracket list i =
     (if i < size left_brackets then
        (if list ! 0 = left_brackets ! i \<and> list ! (size list - 1) = right_brackets ! i
         then i
         else find_bracket list (i + 1))
      else size left_brackets)"
  by pat_completeness auto
termination
  by (relation "measure (\<lambda>(list, i). size left_brackets - i)") auto

text \<open>
  \<open>std::getline(iss, number, delim)\<close> on the unread rest of the stream: it fails when
  nothing is left, and otherwise yields the characters before the first delimiter and
  consumes that delimiter.
\<close>

definition getline :: "char \<Rightarrow> string \<Rightarrow> (string \<times> string) option" where
  "getline delim s =
     (if s = [] then None
      else Some (takeWhile (\<lambda>c. c \<noteq> delim) s, drop 1 (dropWhile (\<lambda>c. c \<noteq> delim) s)))"

text \<open>\<open>number.c_str()\<close> denotes the characters before the first NUL.\<close>

definition c_str :: "string \<Rightarrow> string" where
  "c_str s = takeWhile (\<lambda>c. c \<noteq> CHR 0x00) s"

text \<open>The \<open>while\<close> loop that fills \<open>ret\<close>.\<close>

function read_numbers :: "(string \<Rightarrow> stod_result) \<Rightarrow> char \<Rightarrow> string \<Rightarrow> real list
    \<Rightarrow> list_error + real list" where
  "read_numbers stod delim s ret =
     (case getline delim s of
        None \<Rightarrow> Inr ret
      | Some (number, rest) \<Rightarrow>
          (case stod (c_str number) of
             Converted x \<Rightarrow> read_numbers stod delim rest (ret @ [x])
           | Invalid_argument \<Rightarrow> Inl (Cannot_interpret_number number)
           | Out_of_range \<Rightarrow> Inl Uncaught_out_of_range))"
  by pat_completeness auto
termination
proof (relation "measure (\<lambda>(stod, delim, s, ret). length s)")
  fix stod :: "string \<Rightarrow> stod_result" and delim :: char and s number rest :: string
    and ret :: "real list" and p :: "string \<times> string" and x :: real
  assume "getline delim s = Some p" and "(number, rest) = p"
  then have ne: "s \<noteq> []" and r: "rest = drop 1 (dropWhile (\<lambda>c. c \<noteq> delim) s)"
    by (auto simp: getline_def split: if_splits)
  have "length (dropWhile (\<lambda>c. c \<noteq> delim) s) \<le> length s"
    by (rule length_dropWhile_le)
  with ne r have "length rest < length s" by (cases s) auto
  then show "((stod, delim, rest, ret @ [x]), (stod, delim, s, ret))
      \<in> measure (\<lambda>(stod, delim, s, ret). length s)"
    by simp
qed simp

definition interpret_bracketed_list :: "(string \<Rightarrow> stod_result) \<Rightarrow> string \<Rightarrow> char
    \<Rightarrow> list_error + real list" where
  "interpret_bracketed_list stod list delim =
     (if size list < 2 then Inl (Cannot_interpret_list list)
      else if find_bracket list 0 = size left_brackets
        then Inl (Cannot_find_matching_brackets list)
      else read_numbers stod delim (take (size list - 2) (drop 1 list)) [])"

text \<open>
  The tokens that the loop reads from the interior, one per successful \<open>std::getline\<close>.
  A delimiter at the very end of the interior is consumed with the token before it and
  starts no further token; an empty interior has no token at all.
\<close>

function getline_tokens :: "char \<Rightarrow> string \<Rightarrow> string list" where
  "getline_tokens delim s =
     (case getline delim s of
        None \<Rightarrow> []
      | Some (number, rest) \<Rightarrow> number # getline_tokens delim rest)"
  by pat_completeness auto
termination
proof (relation "measure (\<lambda>(delim, s). length s)")
  fix delim :: char and s number rest :: string and p :: "string \<times> string"
  assume "getline delim s = Some p" and "(number, rest) = p"
  then have ne: "s \<noteq> []" and r: "rest = drop 1 (dropWhile (\<lambda>c. c \<noteq> delim) s)"
    by (auto simp: getline_def split: if_splits)
  have "length (dropWhile (\<lambda>c. c \<noteq> delim) s) \<le> length s"
    by (rule length_dropWhile_le)
  with ne r have "length rest < length s" by (cases s) auto
  then show "((delim, rest), (delim, s)) \<in> measure (\<lambda>(delim, s). length s)"
    by simp
qed simp

text \<open>
  The first and the last character are an opening bracket and the closing bracket of
  the same style.
\<close>

definition matching_brackets :: "string \<Rightarrow> bool" where
  "matching_brackets list =
     (hd list = CHR ''['' \<and> last list = CHR '']'' \<or>
      hd list = CHR ''('' \<and> last list = CHR '')'' \<or>
      hd list = CHR ''{'' \<and> last list = CHR ''}'')"

text \<open>
  A conversion without a value, and the errors of the parser that are a malformed list
  (the three that are reported as an error of parsing and end the program with status 1).
\<close>

definition unconverted :: "stod_result \<Rightarrow> bool" where
  "unconverted r = (case r of Converted x \<Rightarrow> False | _ \<Rightarrow> True)"

definition malformed_list :: "list_error \<Rightarrow> bool" where
  "malformed_list err = (err \<noteq> Uncaught_out_of_range)"

definition interior :: "string \<Rightarrow> string" where
  "interior list = take (size list - 2) (drop 1 list)"

subsection \<open>A conversion for decimal numerals\<close>

text \<open>
  An executable instance of the conversion, used to run the parser on concrete inputs. It
  follows \<open>strtod\<close> on decimal numerals: leading white space, an optional sign, digits
  with an optional point, and an exponent when \<open>e\<close> is followed by an optionally signed
  digit; the longest such prefix is converted and the rest is ignored. Overflow starts at
  \<open>2 ^ 1024 - 2 ^ 970\<close> (the least value that does not round to a finite double), underflow
  is a non-zero value below \<open>2 ^ -1022\<close> that is no multiple of \<open>2 ^ -1074\<close>. Hexadecimal
  numerals, \<open>inf\<close> and \<open>nan\<close> are outside this instance.
\<close>

definition isspace_c :: "char \<Rightarrow> bool" where
  "isspace_c c = (c \<in> set [CHR '' '', CHR 0x09, CHR 0x0A, CHR 0x0B, CHR 0x0C, CHR 0x0D])"

definition isdigit_c :: "char \<Rightarrow> bool" where
  "isdigit_c c = (c \<in> set ''0123456789'')"

definition decimal_value :: "string \<Rightarrow> nat" where
  "decimal_value ds = foldl (\<lambda>n c. 10 * n + (of_char c - 48)) 0 ds"

definition split_sign :: "string \<Rightarrow> bool \<times> string" where
  "split_sign s =
     (case s of
        [] \<Rightarrow> (False, [])
      | c # r \<Rightarrow> if c = CHR ''-'' then (True, r) else if c = CHR ''+'' then (False, r)
                else (False, s))"

definition exponent_part :: "string \<Rightarrow> int" where
  "exponent_part s =
     (case s of
        [] \<Rightarrow> 0
      | c # r \<Rightarrow>
          if c = CHR ''e'' \<or> c = CHR ''E'' then
            (case split_sign r of (neg, ds) \<Rightarrow>
               (let ed = takeWhile isdigit_c ds
                in if ed = [] then 0
                   else if neg then - int (decimal_value ed) else int (decimal_value ed)))
          else 0)"

definition stod_dec :: "string \<Rightarrow> stod_result" where
  "stod_dec s =
     (case split_sign (dropWhile isspace_c s) of (neg, s2) \<Rightarrow>
        (let ip = takeWhile isdigit_c s2;
             s3 = dropWhile isdigit_c s2;
             has_point = (s3 \<noteq> [] \<and> hd s3 = CHR ''.'');
             fp = (if has_point then takeWhile isdigit_c (tl s3) else []);
             s4 = (if has_point then dropWhile isdigit_c (tl s3) else s3)
         in if ip = [] \<and> fp = [] then Invalid_argument
            else
              (let sc = exponent_part s4 - int (length fp);
                   m = real (decimal_value (ip @ fp));
                   v = (if 0 \<le> sc then m * 10 ^ nat sc else m / 10 ^ nat (- sc))
               in if 2 ^ 1024 - 2 ^ 970 \<le> v then Out_of_range
                  else if 0 < v \<and> v < 1 / 2 ^ 1022 \<and> frac (v * 2 ^ 1074) \<noteq> 0
                    then Out_of_range
                  else Converted (if neg then - v else v))))"

section \<open>Time points and rounding\<close>

text \<open>
  A time point is its count of nanoseconds since the epoch, the tick of
  \<open>std::chrono::system_clock\<close> in libstdc++; \<open>vxsdr::duration\<close> (declared in the absent
  \<open>vxsdr.hpp\<close>) is taken to have the same tick. The count is a signed 64-bit integer in the
  source; \<open>wrap_int64\<close> gives the value that two's-complement arithmetic leaves where a
  result is outside that range (the language itself leaves such a result undefined).
\<close>

type_synonym time_point = int

definition wrap_int64 :: "int \<Rightarrow> int" where
  "wrap_int64 x = (x + 2 ^ 63) mod 2 ^ 64 - 2 ^ 63"

definition nanoseconds_per_second :: int where
  "nanoseconds_per_second = 1000000000"

definition nanoseconds_per_millisecond :: int where
  "nanoseconds_per_millisecond = 1000000"

text \<open>\<open>duration_cast\<close> between integer ticks truncates towards zero.\<close>

definition cast_seconds :: "time_point \<Rightarrow> int" where
  "cast_seconds t = t sdiv nanoseconds_per_second"

definition cast_milliseconds :: "time_point \<Rightarrow> int" where
  "cast_milliseconds t = t sdiv nanoseconds_per_millisecond"

text \<open>
  \<open>std::chrono::floor<seconds>\<close> and \<open>std::chrono::ceil<seconds>\<close>, as the library
  defines them: cast, then step back or forward by one when the cast went the wrong way.
  Both return a count of seconds.
\<close>

definition floor_seconds :: "time_point \<Rightarrow> int" where
  "floor_seconds t =
     (let s = cast_seconds t in if s * nanoseconds_per_second > t then s - 1 else s)"

definition ceil_seconds :: "time_point \<Rightarrow> int" where
  "ceil_seconds t =
     (let s = cast_seconds t in if s * nanoseconds_per_second < t then s + 1 else s)"

section \<open>Doubles\<close>

text \<open>
  A finite double is the real number it denotes (the two zeros are not told apart). The
  result of an operation on doubles is the real result rounded to the nearest double,
  halfway cases to the even significand, or an infinity, or not a number.
\<close>

datatype double_value = Finite real | Infinity | Minus_infinity | Not_a_number

definition pow2 :: "int \<Rightarrow> real" where
  "pow2 e = (if 0 \<le> e then 2 ^ nat e else 1 / 2 ^ nat (- e))"

text \<open>For a positive \<open>x\<close>, the exponent \<open>e\<close> with \<open>2 ^ e \<le> x < 2 ^ (e + 1)\<close>.\<close>

definition binade :: "real \<Rightarrow> int" where
  "binade x =
     (if 1 \<le> x then bitlen \<lfloor>x\<rfloor> - 1 else - bitlen (\<lceil>1 / x\<rceil> - 1))"

definition to_nearest_even :: "real \<Rightarrow> int" where
  "to_nearest_even x =
     (let f = \<lfloor>x\<rfloor>; r = x - of_int f
      in if r < 1 / 2 then f else if 1 / 2 < r then f + 1 else if even f then f else f + 1)"

text \<open>
  Rounding to a double: 53 significant bits, the least exponent \<open>- 1022\<close> (below it the
  spacing of the doubles stays \<open>2 ^ - 1074\<close>), and an infinity from \<open>2 ^ 1024\<close> on.
\<close>

definition round_double :: "real \<Rightarrow> double_value" where
  "round_double x =
     (if x = 0 then Finite 0
      else
        (let e = max (binade \<bar>x\<bar>) (- 1022);
             u = pow2 (e - 52);
             r = of_int (to_nearest_even (x / u)) * u
         in if 2 ^ 1024 \<le> \<bar>r\<bar> then (if 0 < x then Infinity else Minus_infinity)
            else Finite r))"

definition double_div :: "real \<Rightarrow> real \<Rightarrow> double_value" where
  "double_div x y =
     (if y = 0
      then (if x = 0 then Not_a_number else if 0 < x then Infinity else Minus_infinity)
      else round_double (x / y))"

text \<open>The comparison \<open>a > b\<close> of doubles, for a finite \<open>b\<close>.\<close>

definition double_greater :: "double_value \<Rightarrow> real \<Rightarrow> bool" where
  "double_greater a b =
     (case a of Finite x \<Rightarrow> b < x | Infinity \<Rightarrow> True | Minus_infinity \<Rightarrow> False
      | Not_a_number \<Rightarrow> False)"

text \<open>
  \<open>std::llround\<close> on a finite double: to the nearest integer, halfway cases away from
  zero. Where that integer is no \<open>long long\<close>, and for an infinity or not a number, the
  standard leaves the result unspecified; the value that x86-64 gives, the least
  \<open>long long\<close>, stands for it.
\<close>

definition llround :: "real \<Rightarrow> int" where
  "llround x =
     (let r = (if 0 \<le> x then \<lfloor>x + 1 / 2\<rfloor> else - \<lfloor>- x + 1 / 2\<rfloor>)
      in if - (2 ^ 63) \<le> r \<and> r < 2 ^ 63 then r else - (2 ^ 63))"

definition llround_double :: "double_value \<Rightarrow> int" where
  "llround_double a = (case a of Finite x \<Rightarrow> llround x | _ \<Rightarrow> - (2 ^ 63))"

section \<open>The program's inputs, the device, and what a run leaves behind\<close>

type_synonym sample = "16 word \<times> 16 word"

text \<open>
  The parsed options (\<open>vm\<close>); \<open>None\<close> is an option with \<open>vm.count(...) = 0\<close>. The
  options \<open>duration\<close> and \<open>pri\<close> have default values and are always present. As before,
  a \<open>double\<close> is the real number it denotes.
\<close>

record parsed_options =
  duration :: real
  pri :: real
  time_source :: "string option"
  payload_size :: "32 word option"
  rate :: "real option"
  tx_rate :: "real option"
  freq :: "real option"
  tx_freq :: "real option"
  tx_ant :: "string option"
  tx_gain :: "real option"
  tx_iq_bias :: "string option"
  tx_iq_corr :: "string option"

text \<open>
  The device behind \<open>radio\<close>, as the answers it gives. A setter answers whether it
  succeeded; \<open>get_time_now\<close> is asked twice in a run and answers by the number of the
  call. Sizes and counts are natural numbers.
\<close>

record vxsdr =
  set_time_now :: "time_point \<Rightarrow> bool"
  set_time_next_pps :: "time_point \<Rightarrow> bool"
  set_max_payload_bytes :: "32 word \<Rightarrow> bool"
  set_tx_rate :: "real \<Rightarrow> bool"
  set_tx_freq :: "real \<Rightarrow> bool"
  get_tx_num_ports :: "nat option"
  get_tx_port_name :: "nat \<Rightarrow> string option"
  set_tx_port :: "nat \<Rightarrow> bool"
  set_tx_gain :: "real \<Rightarrow> bool"
  set_tx_iq_bias :: "real list \<Rightarrow> bool"
  set_tx_iq_corr :: "real list \<Rightarrow> bool"
  get_tx_rate :: "real option"
  get_buffer_info :: "nat list option"
  hello :: "32 word list option"
  compute_sample_granularity :: "32 word \<Rightarrow> nat"
  get_time_now :: "nat \<Rightarrow> time_point option"
  put_tx_data :: "sample list \<Rightarrow> nat"
  tx_loop :: "time_point \<Rightarrow> nat \<Rightarrow> int \<Rightarrow> nat \<Rightarrow> bool"

text \<open>
  Everything a run depends on: the options, the device, the host clock when
  \<open>set_common_options\<close> reads it, the samples of the waveform file (\<open>None\<close> when the file
  cannot be opened), \<open>sizeof(vxsdr::wire_sample)\<close> and \<open>std::stod\<close>.
\<close>

record environment =
  vm :: parsed_options
  radio :: vxsdr
  system_clock_now :: time_point
  tx_waveform_file :: "sample list option"
  sizeof_wire_sample :: nat
  stod :: "string \<Rightarrow> stod_result"

text \<open>The error and warning lines that the program prints.\<close>

datatype message =
    Duration_must_be_positive
  | Pri_must_be_nonnegative
  | Unable_to_read_tx_waveform_file
  | Tx_waveform_file_contains nat
  | Unknown_time_source string
  | Error_in string string
  | Requires_arguments string nat
  | Please_specify_rate
  | Please_specify_freq
  | Error_parsing list_error
  | Waveform_longer_than_pri
  | Unable_to_get_buffer_info
  | Will_not_fit_in_tx_buffer nat nat
  | Gaps_will_occur
  | Unable_to_get_radio_time
  | Error_sending_waveform_data
  | Tx_loop_failed
  | Exception_caught

text \<open>The calls that change the device.\<close>

datatype command =
    Set_time_now time_point
  | Set_time_next_pps time_point
  | Set_max_payload_bytes "32 word"
  | Set_tx_rate real
  | Set_tx_freq real
  | Set_tx_port nat
  | Set_tx_gain real
  | Set_tx_iq_bias "real list"
  | Set_tx_iq_corr "real list"
  | Put_tx_data "sample list"
  | Tx_loop time_point nat int nat

datatype event = Message message | Command command | Sleep_until time_point

text \<open>
  How a function stops without returning: \<open>exit\<close> or \<open>return\<close> from \<open>main\<close> with a
  status, an exception on its way to the handler of \<open>main\<close>, or undefined behaviour.
\<close>

datatype stop = Exit nat | Exception | Undefined_behaviour

type_synonym 'a step = "event list \<times> (stop + 'a)"

definition and_then :: "'a step \<Rightarrow> ('a \<Rightarrow> 'b step) \<Rightarrow> 'b step" where
  "and_then r f =
     (case r of
        (evs, Inl s) \<Rightarrow> (evs, Inl s)
      | (evs, Inr x) \<Rightarrow> (case f x of (evs', y) \<Rightarrow> (evs @ evs', y)))"

text \<open>A setter call whose failure is reported and not otherwise acted on.\<close>

definition report :: "command \<Rightarrow> bool \<Rightarrow> string \<Rightarrow> string \<Rightarrow> event list" where
  "report c ok fn what =
     (if ok then [Command c] else [Command c, Message (Error_in fn what)])"

section \<open>Setting the options (\<open>set_common_options\<close> and its siblings)\<close>

text \<open>\<open>std::tolower\<close> in the C locale.\<close>

definition tolower :: "char \<Rightarrow> char" where
  "tolower c =
     (let n = (of_char c :: nat) in if 65 \<le> n \<and> n \<le> 90 then char_of (n + 32) else c)"

definition max_host_clock_error_ms :: int where
  "max_host_clock_error_ms = 200"

text \<open>
  \<open>msecs.count()\<close>: the host time cast to milliseconds, minus its floor to seconds in
  milliseconds.
\<close>

definition msecs :: "time_point \<Rightarrow> int" where
  "msecs t_now = cast_milliseconds t_now - 1000 * floor_seconds t_now"

text \<open>
  The target of the instruction: a time point in whole seconds, which becomes a count of
  nanoseconds when it is assigned to \<open>t_set\<close>.
\<close>

definition t_set :: "time_point \<Rightarrow> time_point" where
  "t_set t_now =
     (if msecs t_now < 1000 - max_host_clock_error_ms
      then wrap_int64 (ceil_seconds t_now * nanoseconds_per_second)
      else wrap_int64 ((ceil_seconds t_now + 1) * nanoseconds_per_second))"

definition set_common_options :: "environment \<Rightarrow> unit step" where
  "set_common_options e =
     (case time_source (vm e) of
        None \<Rightarrow> ([], Inr ())
      | Some ts \<Rightarrow>
          (let ts_str = map tolower ts; t_now = system_clock_now e
           in if ts_str = ''host'' then
                (report (Set_time_now t_now) (set_time_now (radio e) t_now)
                   ''set_common_options'' ''set_time_now'', Inr ())
              else if ts_str = ''pps'' then
                (Sleep_until
                   (wrap_int64
                      (t_set t_now - max_host_clock_error_ms * nanoseconds_per_millisecond))
                 # report (Set_time_next_pps (t_set t_now))
                     (set_time_next_pps (radio e) (t_set t_now))
                     ''set_common_options'' ''set_time_next_pps'', Inr ())
              else ([Message (Unknown_time_source ts)], Inl (Exit 1))))"

definition set_network_options :: "environment \<Rightarrow> unit step" where
  "set_network_options e =
     (case payload_size (vm e) of
        None \<Rightarrow> ([], Inr ())
      | Some n \<Rightarrow>
          (report (Set_max_payload_bytes n) (set_max_payload_bytes (radio e) n)
             ''set_network_options'' ''set_max_payload_bytes'', Inr ()))"

text \<open>The parts of \<open>set_tx_1ch_options\<close>, in the order of the source.\<close>

definition set_tx_1ch_rate :: "environment \<Rightarrow> unit step" where
  "set_tx_1ch_rate e =
     (case rate (vm e) of
        Some r \<Rightarrow>
          (report (Set_tx_rate r) (set_tx_rate (radio e) r)
             ''set_tx_1ch_options'' ''set_tx_rate'', Inr ())
      | None \<Rightarrow>
          (case tx_rate (vm e) of
             Some r \<Rightarrow>
               (report (Set_tx_rate r) (set_tx_rate (radio e) r)
                  ''set_tx_1ch_options'' ''set_tx_rate'', Inr ())
           | None \<Rightarrow> ([Message Please_specify_rate], Inl (Exit 1))))"

definition set_tx_1ch_freq :: "environment \<Rightarrow> unit step" where
  "set_tx_1ch_freq e =
     (case freq (vm e) of
        Some f \<Rightarrow>
          (report (Set_tx_freq f) (set_tx_freq (radio e) f)
             ''set_tx_1ch_options'' ''set_tx_freq'', Inr ())
      | None \<Rightarrow>
          (case tx_freq (vm e) of
             Some f \<Rightarrow>
               (report (Set_tx_freq f) (set_tx_freq (radio e) f)
                  ''set_tx_1ch_options'' ''set_tx_freq'', Inr ())
           | None \<Rightarrow> ([Message Please_specify_freq], Inl (Exit 1))))"

text \<open>
  The loop over the ports, from port \<open>n\<close> on: the calls of \<open>set_tx_port\<close> it makes and
  the final value of \<open>port_set\<close>. The bound is \<open>get_tx_num_ports().value_or(-1)\<close>, an
  \<open>unsigned\<close>.
\<close>

definition num_ports_or :: "vxsdr \<Rightarrow> nat" where
  "num_ports_or r = (case get_tx_num_ports r of Some k \<Rightarrow> k | None \<Rightarrow> 2 ^ 32 - 1)"

function port_loop :: "vxsdr \<Rightarrow> string \<Rightarrow> nat \<Rightarrow> event list \<times> bool" where
  "port_loop r ant n =
     (if n < num_ports_or r then
        (if (case get_tx_port_name r n of Some name \<Rightarrow> name | None \<Rightarrow> []) = ant then
           (if set_tx_port r n then ([Command (Set_tx_port n)], True)
            else (case port_loop r ant (n + 1) of
                    (evs, port_set) \<Rightarrow> (Command (Set_tx_port n) # evs, port_set)))
         else port_loop r ant (n + 1))
      else ([], False))"
  by pat_completeness auto
termination
  by (relation "measure (\<lambda>(r, ant, n). num_ports_or r - n)") auto

definition set_tx_1ch_ant :: "environment \<Rightarrow> unit step" where
  "set_tx_1ch_ant e =
     (case tx_ant (vm e) of
        None \<Rightarrow> ([], Inr ())
      | Some ant \<Rightarrow>
          (case port_loop (radio e) ant 0 of
             (evs, port_set) \<Rightarrow>
               (if port_set then evs
                else evs @ [Message (Error_in ''set_tx_1ch_options'' ''set_tx_port'')],
                Inr ())))"

definition set_tx_1ch_gain :: "environment \<Rightarrow> unit step" where
  "set_tx_1ch_gain e =
     (case tx_gain (vm e) of
        None \<Rightarrow> ([], Inr ())
      | Some g \<Rightarrow>
          (report (Set_tx_gain g) (set_tx_gain (radio e) g)
             ''set_tx_1ch_options'' ''set_tx_gain'', Inr ()))"

text \<open>
  A bracketed option: the list is interpreted with the default delimiter; \<open>exit(1)\<close>
  inside the parser ends the program, its uncaught exception travels on.
\<close>

definition bracketed_option :: "environment \<Rightarrow> string \<Rightarrow> real list step" where
  "bracketed_option e str =
     (case interpret_bracketed_list (stod e) str (CHR '','') of
        Inr x \<Rightarrow> ([], Inr x)
      | Inl Uncaught_out_of_range \<Rightarrow> ([], Inl Exception)
      | Inl err \<Rightarrow> ([Message (Error_parsing err)], Inl (Exit 1)))"

definition set_tx_1ch_iq_bias :: "environment \<Rightarrow> unit step" where
  "set_tx_1ch_iq_bias e =
     (case tx_iq_bias (vm e) of
        None \<Rightarrow> ([], Inr ())
      | Some str \<Rightarrow>
          and_then (bracketed_option e str) (\<lambda>x.
            if size x \<noteq> 2 then ([Message (Requires_arguments ''set_tx_iq_bias'' 2)], Inr ())
            else (report (Set_tx_iq_bias x) (set_tx_iq_bias (radio e) x)
                    ''set_tx_1ch_options'' ''set_tx_iq_bias'', Inr ())))"

definition set_tx_1ch_iq_corr :: "environment \<Rightarrow> unit step" where
  "set_tx_1ch_iq_corr e =
     (case tx_iq_corr (vm e) of
        None \<Rightarrow> ([], Inr ())
      | Some str \<Rightarrow>
          and_then (bracketed_option e str) (\<lambda>x.
            if size x \<noteq> 4 then ([Message (Requires_arguments ''set_tx_iq_corr'' 4)], Inr ())
            else (report (Set_tx_iq_corr x) (set_tx_iq_corr (radio e) x)
                    ''set_tx_1ch_options'' ''set_tx_iq_corr'', Inr ())))"

definition set_tx_1ch_options :: "environment \<Rightarrow> unit step" where
  "set_tx_1ch_options e =
     and_then (set_tx_1ch_rate e) (\<lambda>_.
     and_then (set_tx_1ch_freq e) (\<lambda>_.
     and_then (set_tx_1ch_ant e) (\<lambda>_.
     and_then (set_tx_1ch_gain e) (\<lambda>_.
     and_then (set_tx_1ch_iq_bias e) (\<lambda>_.
     set_tx_1ch_iq_corr e)))))"

section \<open>Looped transmission from a file (\<open>main\<close>)\<close>

text \<open>
  The number of repetitions: the quotient of the two doubles, rounded by \<open>std::llround\<close>;
  the \<open>long long\<close> becomes a \<open>size_t\<close>, that is, it is reduced modulo \<open>2 ^ 64\<close>.
\<close>

definition find_n_pulses :: "real \<Rightarrow> real \<Rightarrow> nat" where
  "find_n_pulses duration_sec pri_sec =
     (if pri_sec > 0
      then nat (llround_double (double_div duration_sec pri_sec) mod 2 ^ 64)
      else 0)"

definition check_duration_pri :: "environment \<Rightarrow> nat step" where
  "check_duration_pri e =
     (if duration (vm e) \<le> 0 then ([Message Duration_must_be_positive], Inl (Exit 1))
      else if pri (vm e) < 0 then ([Message Pri_must_be_nonnegative], Inl (Exit 1))
      else ([], Inr (find_n_pulses (duration (vm e)) (pri (vm e)))))"

text \<open>
  \<open>read_cplx_16\<close> on a file of whole samples: the number of samples read, and \<open>data\<close>
  afterwards (grown to the file's size when shorter, zero behind the file's samples
  when longer).
\<close>

definition read_cplx_16 :: "sample list option \<Rightarrow> sample list \<Rightarrow> nat \<times> sample list" where
  "read_cplx_16 file data =
     (case file of
        None \<Rightarrow> (0, data)
      | Some xs \<Rightarrow> (size xs, xs @ replicate (size data - size xs) (0, 0)))"

definition load_waveform :: "environment \<Rightarrow> sample list step" where
  "load_waveform e =
     (case read_cplx_16 (tx_waveform_file e) [] of
        (num_elem, tx_wf) \<Rightarrow>
          if num_elem = 0 then ([Message Unable_to_read_tx_waveform_file], Inl (Exit 1))
          else if size tx_wf = 0
            then ([Message (Tx_waveform_file_contains (size tx_wf))], Inl (Exit 1))
          else ([], Inr tx_wf))"

text \<open>
  \<open>waveform_duration\<close>: \<open>n_samples\<close>, converted to a double, divided by the rate as
  doubles.
\<close>

definition waveform_duration :: "nat \<Rightarrow> real \<Rightarrow> double_value" where
  "waveform_duration n_samples tx_rate_now =
     (case round_double (real n_samples) of
        Finite x \<Rightarrow> double_div x tx_rate_now
      | a \<Rightarrow> a)"

definition check_waveform_duration :: "environment \<Rightarrow> nat \<Rightarrow> unit step" where
  "check_waveform_duration e n_samples =
     (let tx_rate_now = (case get_tx_rate (radio e) of Some x \<Rightarrow> x | None \<Rightarrow> - 1)
      in if pri (vm e) > 0
            \<and> double_greater (waveform_duration n_samples tx_rate_now) (pri (vm e))
         then ([Message Waveform_longer_than_pri], Inl (Exit 1))
         else ([], Inr ()))"

text \<open>
  The check that the looped waveform fits in the buffer. \<open>at\<close> is the checked access of
  the container; the message carries the samples available and the samples needed.
\<close>

definition check_buffer :: "environment \<Rightarrow> nat \<Rightarrow> unit step" where
  "check_buffer e n_samples =
     (case get_buffer_info (radio e) of
        None \<Rightarrow> ([Message Unable_to_get_buffer_info], Inl (Exit 1))
      | Some bsize \<Rightarrow>
          if size bsize \<le> 1 then ([], Inl Exception)
          else
            (let tx_buffer_size_bytes = bsize ! 1;
                 tx_buffer_samps = tx_buffer_size_bytes div sizeof_wire_sample e
             in if tx_buffer_samps < n_samples
                then ([Message (Will_not_fit_in_tx_buffer tx_buffer_samps n_samples)],
                      Inl (Exit 1))
                else ([], Inr ())))"

text \<open>
  The check of the sample granularity. The remainder is only computed when
  \<open>pri_sec == 0.0\<close> holds; a remainder by zero is undefined behaviour.
\<close>

definition check_granularity :: "environment \<Rightarrow> nat \<Rightarrow> unit step" where
  "check_granularity e n_samples =
     (case hello (radio e) of
        None \<Rightarrow> ([], Inr ())
      | Some hello_info \<Rightarrow>
          if size hello_info \<le> 5 then ([], Inl Exception)
          else
            (let wire_format = hello_info ! 5;
                 granularity = compute_sample_granularity (radio e) wire_format
             in if pri (vm e) = 0 then
                  (if granularity = 0 then ([], Inl Undefined_behaviour)
                   else if n_samples mod granularity \<noteq> 0
                     then ([Message Gaps_will_occur], Inr ())
                   else ([], Inr ()))
                else ([], Inr ())))"

text \<open>
  From reading the radio time to the end of the run. The time is read twice: the first
  reading is only printed, the start time comes from the second, whose \<open>value()\<close> throws
  when there is none.
\<close>

definition transmit :: "environment \<Rightarrow> sample list \<Rightarrow> nat \<Rightarrow> nat \<Rightarrow> unit step" where
  "transmit e tx_wf n_samples n_pulses =
     (case get_time_now (radio e) 0 of
        None \<Rightarrow> ([Message Unable_to_get_radio_time], Inl (Exit 1))
      | Some t1 \<Rightarrow>
          (case get_time_now (radio e) 1 of
             None \<Rightarrow> ([], Inl Exception)
           | Some t \<Rightarrow>
               (let t_start = (ceil_seconds t + 1) * nanoseconds_per_second;
                    n_sent = put_tx_data (radio e) tx_wf;
                    sent = Command (Put_tx_data tx_wf)
                             # (if n_sent \<noteq> n_samples
                                then [Message Error_sending_waveform_data] else []);
                    pri_ns = llround (1000000000 * pri (vm e));
                    loop = Command (Tx_loop t_start n_samples pri_ns n_pulses)
                in if \<not> tx_loop (radio e) t_start n_samples pri_ns n_pulses
                   then (sent @ [loop, Message Tx_loop_failed], Inl (Exit 1))
                   else (sent @ [loop,
                           Sleep_until (t_start
                             + llround (1000 * duration (vm e)) * nanoseconds_per_millisecond
                             + 100 * nanoseconds_per_millisecond)],
                         Inr ()))))"

definition main_try :: "environment \<Rightarrow> unit step" where
  "main_try e =
     and_then (check_duration_pri e) (\<lambda>n_pulses.
     and_then (load_waveform e) (\<lambda>tx_wf.
     and_then (set_common_options e) (\<lambda>_.
     and_then (set_network_options e) (\<lambda>_.
     and_then (set_tx_1ch_options e) (\<lambda>_.
     and_then (check_waveform_duration e (size tx_wf)) (\<lambda>_.
     and_then (check_buffer e (size tx_wf)) (\<lambda>_.
     and_then (check_granularity e (size tx_wf)) (\<lambda>_.
     transmit e tx_wf (size tx_wf) n_pulses))))))))"

text \<open>
  A run: what it did, in order, and how it ended. An exception is caught, reported, and
  ends the run with status 3; falling off the end of \<open>main\<close> is status 0.
\<close>

definition main :: "environment \<Rightarrow> event list \<times> stop" where
  "main e =
     (case main_try e of
        (evs, Inr _) \<Rightarrow> (evs, Exit 0)
      | (evs, Inl Exception) \<Rightarrow> (evs @ [Message Exception_caught], Exit 3)
      | (evs, Inl s) \<Rightarrow> (evs, s))"

definition events :: "event list \<times> stop \<Rightarrow> event list" where
  "events run = fst run"

definition status :: "event list \<times> stop \<Rightarrow> stop" where
  "status run = snd run"

section \<open>A concrete run\<close>

text \<open>
  An environment on which the definitions can be run: a waveform of four samples, a
  transmit buffer of 32 bytes with 4 bytes per sample, a granularity of 2, a device that
  accepts every command, and a host clock that reads 12:00:00.500 on the first day of the
  epoch.
\<close>

definition example_options :: parsed_options where
  "example_options =
     \<lparr>duration = 10, pri = 2, time_source = Some ''pps'', payload_size = None,
      rate = Some 1000000, tx_rate = None, freq = Some 2400000000, tx_freq = None,
      tx_ant = None, tx_gain = Some 0, tx_iq_bias = None, tx_iq_corr = None\<rparr>"

definition example_waveform :: "sample list" where
  "example_waveform = [(1, 0), (0, 1), (- 1, 0), (0, - 1)]"

definition example_radio :: vxsdr where
  "example_radio =
     \<lparr>set_time_now = (\<lambda>t. True), set_time_next_pps = (\<lambda>t. True),
      set_max_payload_bytes = (\<lambda>n. True), set_tx_rate = (\<lambda>x. True),
      set_tx_freq = (\<lambda>x. True), get_tx_num_ports = Some 1,
      get_tx_port_name = (\<lambda>n. Some ''TX1''), set_tx_port = (\<lambda>n. True),
      set_tx_gain = (\<lambda>x. True), set_tx_iq_bias = (\<lambda>x. True),
      set_tx_iq_corr = (\<lambda>x. True), get_tx_rate = Some 1000000,
      get_buffer_info = Some [32, 32], hello = Some [0, 0, 0, 0, 0, 3, 0, 0],
      compute_sample_granularity = (\<lambda>w. 2),
      get_time_now = (\<lambda>k. Some (43202250000000 + int k)),
      put_tx_data = size, tx_loop = (\<lambda>t n p k. True)\<rparr>"

definition example_environment :: environment where
  "example_environment =
     \<lparr>vm = example_options, radio = example_radio, system_clock_now = 43200500000000,
      tx_waveform_file = Some example_waveform, sizeof_wire_sample = 4, stod = stod_dec\<rparr>"

section \<open>Vocabulary of the properties\<close>

text \<open>The two calls that hand the waveform to the device and start the loop.\<close>

fun uploads_or_loops :: "event \<Rightarrow> bool" where
  "uploads_or_loops (Command (Put_tx_data d)) = True"
| "uploads_or_loops (Command (Tx_loop t n p k)) = True"
| "uploads_or_loops ev = False"

text \<open>
  The errors on which the program stops before the transmission: each of these messages
  is followed by \<open>return 1\<close> or \<open>exit(1)\<close> in the source. The other messages are
  reported and the program goes on (a setter that the device refuses, an antenna that is
  not found, a bracketed list of the wrong length, the warning of gaps, an incomplete
  upload), or belong to the loop command and to the handler of exceptions.
\<close>

fun stopping_error :: "message \<Rightarrow> bool" where
  "stopping_error Duration_must_be_positive = True"
| "stopping_error Pri_must_be_nonnegative = True"
| "stopping_error Unable_to_read_tx_waveform_file = True"
| "stopping_error (Tx_waveform_file_contains n) = True"
| "stopping_error (Unknown_time_source ts) = True"
| "stopping_error Please_specify_rate = True"
| "stopping_error Please_specify_freq = True"
| "stopping_error (Error_parsing err) = True"
| "stopping_error Waveform_longer_than_pri = True"
| "stopping_error Unable_to_get_buffer_info = True"
| "stopping_error (Will_not_fit_in_tx_buffer a n) = True"
| "stopping_error Unable_to_get_radio_time = True"
| "stopping_error (Error_in fn what) = False"
| "stopping_error (Requires_arguments fn n) = False"
| "stopping_error Gaps_will_occur = False"
| "stopping_error Error_sending_waveform_data = False"
| "stopping_error Tx_loop_failed = False"
| "stopping_error Exception_caught = False"


text \<open>
  The events of the run before the buffer is looked at: waiting, the setters of the
  options, and the messages about options, the waveform file and the period.
\<close>

fun early_event :: "event \<Rightarrow> bool" where
  "early_event (Sleep_until t) = True"
| "early_event (Command c) = (\<not> uploads_or_loops (Command c))"
| "early_event (Message Unable_to_get_buffer_info) = False"
| "early_event (Message (Will_not_fit_in_tx_buffer a n)) = False"
| "early_event (Message Gaps_will_occur) = False"
| "early_event (Message Unable_to_get_radio_time) = False"
| "early_event (Message Error_sending_waveform_data) = False"
| "early_event (Message Tx_loop_failed) = False"
| "early_event (Message Exception_caught) = False"
| "early_event (Message m) = True"

text \<open>
  A step of the set-up: all its events are early ones, and when it reports an error on
  which the program stops, that message is its last event and it ends the program with
  status 1.
\<close>

definition setup_step :: "'a step \<Rightarrow> bool" where
  "setup_step r =
     ((\<forall>ev \<in> set (fst r). early_event ev) \<and>
      (\<forall>m. stopping_error m \<and> Message m \<in> set (fst r) \<longrightarrow>
           snd r = Inl (Exit 1) \<and> last (fst r) = Message m))"




text \<open>
  The part of \<open>main\<close> before the check of the buffer, with the values it has computed
  by then: \<open>n_pulses\<close> and \<open>tx_wf\<close>.
\<close>

definition main_until_buffer :: "environment \<Rightarrow> (nat \<times> sample list) step" where
  "main_until_buffer e =
     and_then (check_duration_pri e) (\<lambda>n_pulses.
     and_then (load_waveform e) (\<lambda>tx_wf.
     and_then (set_common_options e) (\<lambda>_.
     and_then (set_network_options e) (\<lambda>_.
     and_then (set_tx_1ch_options e) (\<lambda>_.
     and_then (check_waveform_duration e (size tx_wf)) (\<lambda>_.
     ([], Inr (n_pulses, tx_wf))))))))"

text \<open>The rest of \<open>main\<close>, from the check of the buffer on.\<close>

definition main_from_buffer :: "environment \<Rightarrow> nat \<Rightarrow> sample list \<Rightarrow> unit step" where
  "main_from_buffer e n_pulses tx_wf =
     and_then (check_buffer e (size tx_wf)) (\<lambda>_.
     and_then (check_granularity e (size tx_wf)) (\<lambda>_.
     transmit e tx_wf (size tx_wf) n_pulses))"

section \<open>Properties of the bracketed-list parser\<close>

text \<open>The loops are unfolded on demand only.\<close>

declare find_bracket.simps [simp del] read_numbers.simps [simp del]
  getline_tokens.simps [simp del] port_loop.simps [simp del]

lemma find_bracket_matching:
  assumes "2 \<le> size list"
  shows "find_bracket list 0 = size left_brackets \<longleftrightarrow> \<not> matching_brackets list"
proof -
  from assms have ne: "list \<noteq> []" by auto
  then have h: "list ! 0 = hd list" and l: "list ! (size list - Suc 0) = last list"
    by (simp_all add: hd_conv_nth last_conv_nth)
  show ?thesis
    by (simp add: h l find_bracket.simps matching_brackets_def left_brackets_def
        right_brackets_def)
qed

lemma read_numbers_Inr:
  "read_numbers conv delim s ret = Inr xs \<longleftrightarrow>
     (\<exists>ys. xs = ret @ ys \<and> map (\<lambda>t. conv (c_str t)) (getline_tokens delim s) = map Converted ys)"
proof (induction conv delim s ret arbitrary: xs rule: read_numbers.induct)
  case (1 conv delim s ret)
  show ?case
  proof (cases "getline delim s")
    case None
    then show ?thesis by (auto simp: read_numbers.simps getline_tokens.simps)
  next
    case (Some p)
    obtain number rest where p: "p = (number, rest)" by (cases p)
    show ?thesis
    proof (cases "conv (c_str number)")
      case (Converted x)
      have "read_numbers conv delim s ret = read_numbers conv delim rest (ret @ [x])"
        using Some p Converted by (simp add: read_numbers.simps [of conv delim s])
      moreover have "getline_tokens delim s = number # getline_tokens delim rest"
        using Some p by (simp add: getline_tokens.simps [of delim s])
      ultimately show ?thesis
        using "1.IH" [OF Some p [symmetric] Converted, of xs] Converted
        by (auto simp: map_eq_Cons_conv Cons_eq_map_conv)
    next
      case Invalid_argument
      then show ?thesis using Some p
        by (auto simp: Cons_eq_map_conv read_numbers.simps [of conv delim s]
            getline_tokens.simps [of delim s])
    next
      case Out_of_range
      then show ?thesis using Some p
        by (auto simp: Cons_eq_map_conv read_numbers.simps [of conv delim s]
            getline_tokens.simps [of delim s])
    qed
  qed
qed

lemma read_numbers_Inl:
  "read_numbers conv delim s ret = Inl err \<Longrightarrow>
     (case find unconverted (map (\<lambda>t. conv (c_str t)) (getline_tokens delim s)) of
        Some Out_of_range \<Rightarrow> err = Uncaught_out_of_range
      | _ \<Rightarrow> malformed_list err)"
proof (induction conv delim s ret rule: read_numbers.induct)
  case (1 conv delim s ret)
  show ?case
  proof (cases "getline delim s")
    case None
    then show ?thesis using "1.prems" by (simp add: read_numbers.simps [of conv delim s])
  next
    case (Some p)
    obtain number rest where p: "p = (number, rest)" by (cases p)
    have tk: "getline_tokens delim s = number # getline_tokens delim rest"
      using Some p by (simp add: getline_tokens.simps [of delim s])
    show ?thesis
    proof (cases "conv (c_str number)")
      case (Converted x)
      have "read_numbers conv delim s ret = read_numbers conv delim rest (ret @ [x])"
        using Some p Converted by (simp add: read_numbers.simps [of conv delim s])
      then show ?thesis
        using "1.IH" [OF Some p [symmetric] Converted] "1.prems" Converted tk
        by (simp add: unconverted_def)
    next
      case Invalid_argument
      then show ?thesis using Some p "1.prems" tk
        by (auto simp: unconverted_def malformed_list_def read_numbers.simps [of conv delim s])
    next
      case Out_of_range
      then show ?thesis using Some p "1.prems" tk
        by (auto simp: unconverted_def read_numbers.simps [of conv delim s])
    qed
  qed
qed

lemma interpret_bracketed_list_Inr:
  "interpret_bracketed_list conv list delim = Inr xs \<longleftrightarrow>
     2 \<le> size list \<and> matching_brackets list \<and>
     map (\<lambda>t. conv (c_str t)) (getline_tokens delim (interior list)) = map Converted xs"
proof (cases "2 \<le> size list")
  case True
  then show ?thesis
    using find_bracket_matching [OF True]
    by (simp add: interpret_bracketed_list_def interior_def read_numbers_Inr)
next
  case False
  then show ?thesis by (simp add: interpret_bracketed_list_def)
qed

lemma interpret_bracketed_list_Inl:
  assumes "interpret_bracketed_list conv list delim = Inl err"
  shows "malformed_list err \<longleftrightarrow>
     \<not> (2 \<le> size list \<and> matching_brackets list \<and>
        find unconverted (map (\<lambda>t. conv (c_str t)) (getline_tokens delim (interior list)))
          = Some Out_of_range)"
proof (cases "2 \<le> size list \<and> matching_brackets list")
  case True
  then have "read_numbers conv delim (interior list) [] = Inl err"
    using assms find_bracket_matching [of list]
    by (simp add: interpret_bracketed_list_def interior_def)
  from read_numbers_Inl [OF this] True show ?thesis
    by (auto simp: malformed_list_def split: option.splits stod_result.splits)
next
  case False
  then have "err = Cannot_interpret_list list \<or> err = Cannot_find_matching_brackets list"
    using assms find_bracket_matching [of list]
    by (auto simp: interpret_bracketed_list_def split: if_splits)
  with False show ?thesis by (auto simp: malformed_list_def)
qed

lemma stod_dec_1: "stod_dec ''1'' = Converted 1"
  by (simp add: stod_dec_def split_sign_def isspace_c_def isdigit_c_def exponent_part_def
      decimal_value_def)

lemma stod_dec_2: "stod_dec ''2'' = Converted 2"
  by (simp add: stod_dec_def split_sign_def isspace_c_def isdigit_c_def exponent_part_def
      decimal_value_def)

lemma stod_dec_3: "stod_dec ''3'' = Converted 3"
  by (simp add: stod_dec_def split_sign_def isspace_c_def isdigit_c_def exponent_part_def
      decimal_value_def)

lemma stod_dec_1e309: "stod_dec ''1e309'' = Out_of_range"
  by (simp add: stod_dec_def split_sign_def isspace_c_def isdigit_c_def exponent_part_def
      decimal_value_def)

text \<open>
  Claim C10. A list of two characters that are a matching pair of brackets, whatever the
  style, the delimiter and the conversion, is interpreted as the empty sequence: it passes
  the check of the size, and its empty interior has no token.
\<close>

theorem empty_brackets_empty_sequence:
  assumes "size list = 2" and "matching_brackets list"
  shows "interpret_bracketed_list conv list delim = Inr []"
proof -
  have "interior list = []" using assms(1) by (simp add: interior_def)
  then have "getline_tokens delim (interior list) = []"
    by (simp add: getline_tokens.simps getline_def)
  then show ?thesis using assms by (simp add: interpret_bracketed_list_Inr)
qed

theorem empty_brackets_empty_sequence_witness:
  "interpret_bracketed_list stod_dec ''[]'' (CHR '','') = Inr [] \<and>
   interpret_bracketed_list stod_dec ''()'' (CHR '','') = Inr [] \<and>
   interpret_bracketed_list stod_dec ''{}'' (CHR '';'') = Inr []"
  using empty_brackets_empty_sequence [of "''[]''" stod_dec "CHR '',''"]
    empty_brackets_empty_sequence [of "''()''" stod_dec "CHR '',''"]
    empty_brackets_empty_sequence [of "''{}''" stod_dec "CHR '';''"]
  by (simp add: matching_brackets_def)

lemma tokens_123: "getline_tokens (CHR '','') ''1,2,3'' = [''1'', ''2'', ''3'']"
  by (simp add: getline_tokens.simps getline_def)

lemma tokens_12: "getline_tokens (CHR '','') ''1,2'' = [''1'', ''2'']"
  by (simp add: getline_tokens.simps getline_def)

text \<open>
  What the parser does on every input. It returns a sequence exactly when the list has
  at least two characters, its first and last character are a matching pair of brackets,
  and every token read from the interior converts; the sequence then holds the converted
  values in the order of the tokens. In every other case it returns nothing and fails:
  with a malformed-list error, except when size and brackets are right and the first
  token without a value is out of the range of \<open>double\<close>, where the exception of
  \<open>std::stod\<close> leaves the function uncaught.
\<close>

lemma interpret_bracketed_list_all_or_nothing:
  "(interpret_bracketed_list conv list delim = Inr xs \<longleftrightarrow>
      2 \<le> size list \<and> matching_brackets list \<and>
      map (\<lambda>t. conv (c_str t)) (getline_tokens delim (interior list)) = map Converted xs)
   \<and> (interpret_bracketed_list conv list delim = Inl err \<longrightarrow>
        (malformed_list err \<longleftrightarrow>
           \<not> (2 \<le> size list \<and> matching_brackets list \<and>
              find unconverted
                (map (\<lambda>t. conv (c_str t)) (getline_tokens delim (interior list)))
                = Some Out_of_range)))"
  using interpret_bracketed_list_Inr [of conv list delim xs]
    interpret_bracketed_list_Inl [of conv list delim err]
  by blast

lemma interpret_bracketed_list_examples:
  "interpret_bracketed_list stod_dec ''[1,2,3]'' (CHR '','') = Inr [1, 2, 3] \<and>
   interpret_bracketed_list stod_dec ''(1,2)'' (CHR '','') = Inr [1, 2] \<and>
   interpret_bracketed_list stod_dec ''[1,2)'' (CHR '','')
     = Inl (Cannot_find_matching_brackets ''[1,2)'') \<and>
   malformed_list (Cannot_find_matching_brackets ''[1,2)'')"
proof -
  have a: "2 \<le> size ''[1,2,3]'' \<and> matching_brackets ''[1,2,3]'' \<and>
      map (\<lambda>t. stod_dec (c_str t)) (getline_tokens (CHR '','') (interior ''[1,2,3]''))
        = map Converted [1, 2, 3]"
    by (simp add: matching_brackets_def interior_def tokens_123 c_str_def
        stod_dec_1 stod_dec_2 stod_dec_3)
  have b: "2 \<le> size ''(1,2)'' \<and> matching_brackets ''(1,2)'' \<and>
      map (\<lambda>t. stod_dec (c_str t)) (getline_tokens (CHR '','') (interior ''(1,2)''))
        = map Converted [1, 2]"
    by (simp add: matching_brackets_def interior_def tokens_12 c_str_def
        stod_dec_1 stod_dec_2)
  have c: "interpret_bracketed_list stod_dec ''[1,2)'' (CHR '','')
      = Inl (Cannot_find_matching_brackets ''[1,2)'')"
    by (simp add: interpret_bracketed_list_def find_bracket.simps left_brackets_def
        right_brackets_def)
  have d: "\<not> matching_brackets ''[1,2)''"
    by (simp add: matching_brackets_def)
  show ?thesis
    using a b c d
      interpret_bracketed_list_all_or_nothing
        [of stod_dec "''[1,2,3]''" "CHR '',''" "[1, 2, 3]"]
      interpret_bracketed_list_all_or_nothing
        [of stod_dec "''(1,2)''" "CHR '',''" "[1, 2]"]
      interpret_bracketed_list_all_or_nothing
        [of stod_dec "''[1,2)''" "CHR '',''" _ "Cannot_find_matching_brackets ''[1,2)''"]
    by blast
qed

text \<open>
  Claim C6. On the list \<open>[1e309]\<close>, whose only token is a numeral beyond the range of
  \<open>double\<close>, the parser neither returns a sequence nor fails with a malformed-list error:
  the \<open>std::out_of_range\<close> of \<open>std::stod\<close> passes the handler, which catches
  \<open>std::invalid_argument\<close> only.
\<close>

theorem out_of_range_token_escapes:
  "interpret_bracketed_list stod_dec ''[1e309]'' (CHR '','') = Inl Uncaught_out_of_range \<and>
   \<not> malformed_list Uncaught_out_of_range"
  by (simp add: interpret_bracketed_list_def find_bracket.simps left_brackets_def
      right_brackets_def read_numbers.simps getline_def c_str_def stod_dec_1e309
      malformed_list_def)

section \<open>Properties of the rounding of time points\<close>

lemma sdiv_pos: "0 < n \<Longrightarrow> (t::int) sdiv n = (if 0 \<le> t then t div n else - ((- t) div n))"
  by (auto simp: signed_divide_int_def sgn_if)

lemma cast_up: 
  fixes t n :: int assumes n: "0 < n"
  shows "(if (t sdiv n) * n < t then t sdiv n + 1 else t sdiv n) = - ((- t) div n)"
proof (cases "0 \<le> t")
  case True
  have eq: "t div n * n + t mod n = t" by simp
  have m: "0 \<le> t mod n" using n by simp
  have "(t div n * n < t) = (t mod n \<noteq> 0)" using eq m by linarith
  then show ?thesis using True n by (simp add: sdiv_pos zdiv_zminus1_eq_if)
next
  case False
  have "(- t) div n * n \<le> - t" using n
    by (metis div_mult_mod_eq le_add_same_cancel1 pos_mod_sign)
  then have "\<not> (- ((- t) div n)) * n < t" by simp
  then show ?thesis using False n by (simp add: sdiv_pos)
qed

lemma cast_down: 
  fixes t n :: int assumes n: "0 < n"
  shows "(if (t sdiv n) * n > t then t sdiv n - 1 else t sdiv n) = t div n"
proof (cases "0 \<le> t")
  case True
  have "t div n * n \<le> t" using n
    by (metis div_mult_mod_eq le_add_same_cancel1 pos_mod_sign)
  then show ?thesis using True n by (simp add: sdiv_pos)
next
  case False
  have eq: "(- t) div n * n + (- t) mod n = - t" by simp
  have m: "0 \<le> (- t) mod n" using n by simp
  have "(- ((- t) div n) * n > t) = ((- t) mod n \<noteq> 0)" using eq m by linarith
  then show ?thesis using False n zdiv_zminus1_eq_if [of n "- t"] by (simp add: sdiv_pos)
qed

lemma ceil_seconds_eq: "ceil_seconds t = - ((- t) div 1000000000)"
  unfolding ceil_seconds_def cast_seconds_def nanoseconds_per_second_def Let_def
  by (rule cast_up) simp

lemma floor_seconds_eq: "floor_seconds t = t div 1000000000"
  unfolding floor_seconds_def cast_seconds_def nanoseconds_per_second_def Let_def
  by (rule cast_down) simp

lemma ceil_seconds_ceiling: "ceil_seconds t = \<lceil>real_of_int t / 1000000000\<rceil>"
  using ceiling_divide_eq_div [of t 1000000000, where ?'a = real] by (simp add: ceil_seconds_eq)

lemma div_split:
  fixes t m k :: int assumes m: "m \<noteq> 0"
  shows "t div m = k * (t div (k * m)) + (t mod (k * m)) div m"
proof -
  have "t mod (k * m) + (k * m) * (t div (k * m)) = t"
    by simp
  then have "t mod (k * m) + (k * (t div (k * m))) * m = t"
    by (simp only: mult.assoc mult.commute mult.left_commute)
  then have "t div m = (t mod (k * m) + (k * (t div (k * m))) * m) div m"
    by simp
  also have "\<dots> = k * (t div (k * m)) + (t mod (k * m)) div m"
    using m div_mult_self1 [of m "t mod (k * m)" "k * (t div (k * m))"] by simp
  finally show ?thesis .
qed

lemma msecs_after_epoch: 
  assumes "0 \<le> t" shows "msecs t = (t mod 1000000000) div 1000000"
  using assms div_split [of 1000000 t 1000]
  by (simp add: msecs_def cast_milliseconds_def nanoseconds_per_millisecond_def sdiv_pos
      floor_seconds_eq)

lemma llround_round: "0 \<le> x \<Longrightarrow> round x < 2 ^ 63 \<Longrightarrow> llround x = round x"
proof -
  assume x: "0 \<le> x" and r: "round x < 2 ^ 63"
  have "0 \<le> round x" using x by (simp add: round_def)
  then show ?thesis using x r by (simp add: llround_def round_def Let_def)
qed

lemma wrap_int64_id: "0 \<le> x \<Longrightarrow> x < 2 ^ 63 \<Longrightarrow> wrap_int64 x = x"
  by (simp add: wrap_int64_def)

lemma tolower_pps: "map tolower ''pps'' = ''pps''" "map tolower ''PPS'' = ''pps''"
  by code_simp+

section \<open>Properties of the clock synchronisation\<close>

lemma ceil_seconds_bounds:
  assumes "0 \<le> t" and "t \<le> 9223372035000000000"
  shows "0 \<le> ceil_seconds t" and "ceil_seconds t \<le> 9223372035"
proof -
  have "real_of_int t / 1000000000 \<le> real_of_int 9223372035"
    using assms(2) by simp
  then show "ceil_seconds t \<le> 9223372035"
    unfolding ceil_seconds_ceiling by (simp only: ceiling_le_iff)
  have "0 \<le> real_of_int t / 1000000000" using assms(1) by simp
  then have "0 \<le> \<lceil>real_of_int t / 1000000000\<rceil>" by simp
  then show "0 \<le> ceil_seconds t" by (simp only: ceil_seconds_ceiling)
qed

lemma t_set_in_range:
  assumes "0 \<le> t" and "t \<le> 9223372035000000000"
  shows "t_set t =
     (if t mod 1000000000 div 1000000 < 1000 - 200
      then ceil_seconds t * 1000000000 else ceil_seconds t * 1000000000 + 1000000000)"
proof -
  note b = ceil_seconds_bounds [OF assms]
  have "wrap_int64 (ceil_seconds t * 1000000000) = ceil_seconds t * 1000000000"
    using b by (intro wrap_int64_id) simp_all
  moreover have "wrap_int64 ((ceil_seconds t + 1) * 1000000000)
      = ceil_seconds t * 1000000000 + 1000000000"
  proof -
    have "wrap_int64 ((ceil_seconds t + 1) * 1000000000) = (ceil_seconds t + 1) * 1000000000"
      using b by (intro wrap_int64_id) simp_all
    then show ?thesis by (simp add: algebra_simps)
  qed
  ultimately show ?thesis
    using msecs_after_epoch [OF assms(1)]
    by (simp add: t_set_def max_host_clock_error_ms_def nanoseconds_per_second_def)
qed

lemma pps_commands:
  assumes "time_source (vm e) = Some ts" and "map tolower ts = ''pps''"
  shows "Command (Set_time_next_pps T) \<in> set (fst (set_common_options e)) \<longleftrightarrow>
      T = t_set (system_clock_now e)"
proof -
  have "fst (set_common_options e) =
      Sleep_until (wrap_int64 (t_set (system_clock_now e) - 200000000))
      # report (Set_time_next_pps (t_set (system_clock_now e)))
          (set_time_next_pps (radio e) (t_set (system_clock_now e)))
          ''set_common_options'' ''set_time_next_pps''"
    using assms
    by (simp add: set_common_options_def Let_def max_host_clock_error_ms_def
        nanoseconds_per_millisecond_def)
  then show ?thesis by (auto simp: report_def)
qed

text \<open>
  Claim C3, as amended. With the time source \<open>pps\<close> (in any letter case),
  \<open>set_common_options\<close> issues exactly one set-time-at-next-PPS instruction. For every
  host time \<open>now\<close> that is not before the epoch and at most 9223372035 seconds after it
  (so that the target is a signed 64-bit count of nanoseconds), the target is the ceiling
  of \<open>now\<close> to whole seconds when the number of whole milliseconds that \<open>now\<close> is past
  the start of its second is below \<open>1000 - 200\<close>, and one second later otherwise.
\<close>

theorem pps_target_second:
  assumes "time_source (vm e) = Some ts" and "map tolower ts = ''pps''"
    and "0 \<le> system_clock_now e" and "system_clock_now e \<le> 9223372035000000000"
  shows "Command (Set_time_next_pps T) \<in> set (fst (set_common_options e)) \<longleftrightarrow>
     T = (if system_clock_now e mod 1000000000 div 1000000 < 1000 - 200
          then \<lceil>real_of_int (system_clock_now e) / 1000000000\<rceil> * 1000000000
          else \<lceil>real_of_int (system_clock_now e) / 1000000000\<rceil> * 1000000000 + 1000000000)"
  using pps_commands [OF assms(1,2), of T] t_set_in_range [OF assms(3,4)]
  by (simp add: ceil_seconds_ceiling)

theorem pps_target_second_witness:
  "time_source (vm example_environment) = Some ''pps'' \<and>
   (0 :: int) \<le> 43200500000000 \<and> (43200500000000 :: int) \<le> 9223372035000000000 \<and>
   (43200500000000 :: int) mod 1000000000 div 1000000 = 500 \<and>
   Command (Set_time_next_pps 43201000000000)
     \<in> set (fst (set_common_options example_environment)) \<and>
   (43200900000000 :: int) mod 1000000000 div 1000000 = 900 \<and>
   Command (Set_time_next_pps 43202000000000)
     \<in> set (fst (set_common_options
          (example_environment
             \<lparr>vm := example_options\<lparr>time_source := Some ''PPS''\<rparr>,
              system_clock_now := 43200900000000\<rparr>)))"
proof -
  have ts: "time_source (vm example_environment) = Some ''pps''"
    by (simp add: example_environment_def example_options_def)
  have n1: "0 \<le> system_clock_now example_environment"
    "system_clock_now example_environment \<le> 9223372035000000000"
    by (simp_all add: example_environment_def)
  let ?e = "example_environment
             \<lparr>vm := example_options\<lparr>time_source := Some ''PPS''\<rparr>,
              system_clock_now := 43200900000000\<rparr>"
  have ts2: "time_source (vm ?e) = Some ''PPS''" by simp
  have n2: "0 \<le> system_clock_now ?e" "system_clock_now ?e \<le> 9223372035000000000"
    by simp_all
  have a: "Command (Set_time_next_pps 43201000000000)
      \<in> set (fst (set_common_options example_environment))"
    using pps_target_second [OF ts tolower_pps(1) n1, of 43201000000000]
    by (simp add: example_environment_def)
  have b: "Command (Set_time_next_pps 43202000000000)
     \<in> set (fst (set_common_options ?e))"
    using pps_target_second [OF ts2 tolower_pps(2) n2, of 43202000000000]
    by simp
  from ts a b show ?thesis by simp
qed

text \<open>
  The claim as stated fails for a host time before the epoch: 200000001 nanoseconds
  before it, the host time is 799 milliseconds past the start of its second and its ceiling
  to whole seconds is the epoch, yet the target of the instruction is one second after
  the epoch.
\<close>

theorem pps_target_second_counterexample:
  "Command (Set_time_next_pps 1000000000)
     \<in> set (fst (set_common_options
          (example_environment\<lparr>system_clock_now := - 200000001\<rparr>))) \<and>
   (- 200000001 :: int) mod 1000000000 div 1000000 = 799 \<and>
   \<lceil>real_of_int (- 200000001) / 1000000000\<rceil> * 1000000000 = (0 :: int)"
proof -
  have ts: "time_source (vm (example_environment\<lparr>system_clock_now := - 200000001\<rparr>))
      = Some ''pps''"
    by (simp add: example_environment_def example_options_def)
  have m: "msecs (- 200000001) = 800"
    by (simp add: msecs_def cast_milliseconds_def floor_seconds_def cast_seconds_def
        nanoseconds_per_millisecond_def nanoseconds_per_second_def sdiv_pos)
  have c: "ceil_seconds (- 200000001) = 0"
    by (simp add: ceil_seconds_def cast_seconds_def nanoseconds_per_second_def sdiv_pos)
  have t: "t_set (- 200000001) = 1000000000"
    by (simp add: t_set_def m c max_host_clock_error_ms_def nanoseconds_per_second_def
        wrap_int64_def)
  have a: "Command (Set_time_next_pps 1000000000)
     \<in> set (fst (set_common_options
          (example_environment\<lparr>system_clock_now := - 200000001\<rparr>)))"
    using pps_commands [OF ts tolower_pps(1), of 1000000000] t by simp
  have "\<lceil>real_of_int (- 200000001) / 1000000000\<rceil> = 0"
    using c by (simp only: ceil_seconds_ceiling)
  with a show ?thesis by simp
qed

section \<open>Properties of the rounding to doubles\<close>

lemma pow2_powi: "pow2 e = 2 powi e"
  by (simp add: pow2_def power_int_def inverse_eq_divide power_one_over)

lemma pow2_pos: "0 < pow2 e"
  by (simp add: pow2_def)

lemma pow2_diff: "pow2 (a - b) = pow2 a / pow2 b"
  by (simp add: pow2_powi power_int_diff)

lemma to_nearest_even_close: "\<bar>of_int (to_nearest_even y) - y\<bar> \<le> 1 / 2"
proof -
  have "of_int \<lfloor>y\<rfloor> \<le> y" "y < of_int \<lfloor>y\<rfloor> + 1" by linarith+
  then show ?thesis by (auto simp: to_nearest_even_def Let_def)
qed

lemma to_nearest_even_nonneg: "0 \<le> y \<Longrightarrow> 0 \<le> to_nearest_even y"
proof -
  assume "0 \<le> y"
  then have "0 \<le> \<lfloor>y\<rfloor>" by simp
  then show ?thesis by (auto simp: to_nearest_even_def Let_def)
qed

lemma round_double_nonneg:
  assumes "0 < x" and "round_double x = Finite r"
  shows "0 \<le> r"
proof -
  define u where "u = pow2 (max (binade \<bar>x\<bar>) (- 1022) - 52)"
  have u: "0 < u" by (simp add: u_def pow2_pos)
  have "0 \<le> x / u" using assms(1) u by simp
  then have "0 \<le> to_nearest_even (x / u)" by (rule to_nearest_even_nonneg)
  then have "0 \<le> real_of_int (to_nearest_even (x / u)) * u" using u by simp
  moreover have "r = real_of_int (to_nearest_even (x / u)) * u"
    using assms by (auto simp: round_double_def Let_def u_def split: if_splits)
  ultimately show ?thesis by simp
qed

lemma round_double_close:
  assumes "x \<noteq> 0" and "round_double x = Finite r"
  shows "\<bar>r - x\<bar> \<le> pow2 (max (binade \<bar>x\<bar>) (- 1022) - 52) / 2"
proof -
  define u where "u = pow2 (max (binade \<bar>x\<bar>) (- 1022) - 52)"
  have u: "0 < u" by (simp add: u_def pow2_pos)
  have r: "r = real_of_int (to_nearest_even (x / u)) * u"
    using assms by (auto simp: round_double_def Let_def u_def split: if_splits)
  have "\<bar>real_of_int (to_nearest_even (x / u)) - x / u\<bar> \<le> 1 / 2"
    by (rule to_nearest_even_close)
  then have "\<bar>real_of_int (to_nearest_even (x / u)) - x / u\<bar> * u \<le> 1 / 2 * u"
    using u by (intro mult_right_mono) simp_all
  moreover have "\<bar>real_of_int (to_nearest_even (x / u)) - x / u\<bar> * u = \<bar>r - x\<bar>"
  proof -
    have "\<bar>real_of_int (to_nearest_even (x / u)) - x / u\<bar> * u
        = \<bar>(real_of_int (to_nearest_even (x / u)) - x / u) * u\<bar>"
      using u by (simp add: abs_mult)
    also have "(real_of_int (to_nearest_even (x / u)) - x / u) * u = r - x"
      using u by (simp add: r algebra_simps)
    finally show ?thesis .
  qed
  ultimately show ?thesis by (simp add: u_def)
qed

lemma binade_lower:
  assumes "0 < x" shows "pow2 (binade x) \<le> x"
proof (cases "1 \<le> x")
  case True
  then have f: "0 < \<lfloor>x\<rfloor>" by linarith
  have b: "0 \<le> bitlen \<lfloor>x\<rfloor> - 1" using f by (simp add: bitlen_def floorlog_def)
  have "2 ^ nat (bitlen \<lfloor>x\<rfloor> - 1) \<le> \<lfloor>x\<rfloor>" using bitlen_bounds [OF f] by simp
  then have "real_of_int (2 ^ nat (bitlen \<lfloor>x\<rfloor> - 1)) \<le> real_of_int \<lfloor>x\<rfloor>"
    by (simp only: of_int_le_iff)
  also have "\<dots> \<le> x" by simp
  finally show ?thesis using True b by (simp add: binade_def pow2_def)
next
  case False
  with assms have x1: "x < 1" by simp
  define m where "m = \<lceil>1 / x\<rceil> - 1"
  have "1 < 1 / x" using assms x1 by simp
  then have m: "0 < m" unfolding m_def by linarith
  have "m < 2 ^ nat (bitlen m)" using bitlen_bounds [OF m] by simp
  then have "\<lceil>1 / x\<rceil> \<le> 2 ^ nat (bitlen m)" by (simp add: m_def)
  then have "1 / x \<le> real_of_int (2 ^ nat (bitlen m))" by (simp only: ceiling_le_iff)
  then have "1 / x \<le> 2 ^ nat (bitlen m)" by simp
  then have "1 \<le> 2 ^ nat (bitlen m) * x" using assms by (simp add: field_simps)
  then have "1 / 2 ^ nat (bitlen m) \<le> x" by (simp add: field_simps)
  moreover have "0 < bitlen m"
  proof (rule ccontr)
    assume "\<not> 0 < bitlen m"
    then have "nat (bitlen m) = 0" by simp
    with \<open>m < 2 ^ nat (bitlen m)\<close> m show False by simp
  qed
  ultimately show ?thesis using False by (simp add: binade_def pow2_def m_def)
qed

lemma round_double_relative:
  assumes "0 < x" and "round_double x = Finite r"
  shows "\<bar>r - x\<bar> \<le> max (x / 2 ^ 53) (1 / 2 ^ 1075)"
proof (cases "- 1022 \<le> binade x")
  case True
  then have "max (binade \<bar>x\<bar>) (- 1022) = binade x" using assms(1) by simp
  then have "\<bar>r - x\<bar> \<le> pow2 (binade x - 52) / 2"
    using round_double_close [OF _ assms(2)] assms(1) by simp
  also have "\<dots> = pow2 (binade x) / 2 ^ 53"
    by (simp add: pow2_diff) (simp add: pow2_def)
  also have "\<dots> \<le> x / 2 ^ 53"
    using binade_lower [OF assms(1)] by (simp add: divide_right_mono)
  finally have "\<bar>r - x\<bar> \<le> x / 2 ^ 53" .
  then show ?thesis by (rule max.coboundedI1)
next
  case False
  then have "max (binade \<bar>x\<bar>) (- 1022) = - 1022" using assms(1) by simp
  then have "\<bar>r - x\<bar> \<le> pow2 (- 1022 - 52) / 2"
    using round_double_close [OF _ assms(2)] assms(1) by simp
  also have "\<dots> = 1 / 2 ^ 1075" by (simp add: pow2_def)
  finally have "\<bar>r - x\<bar> \<le> 1 / 2 ^ 1075" .
  then show ?thesis by (rule max.coboundedI2)
qed

lemma double_div_close:
  assumes "0 < d" and "0 < p" and "double_div d p = Finite q"
  shows "0 \<le> q" and "\<bar>q - d / p\<bar> \<le> max (d / p / 2 ^ 53) (1 / 2 ^ 1075)"
proof -
  have x: "0 < d / p" using assms by simp
  have r: "round_double (d / p) = Finite q" using assms by (simp add: double_div_def)
  show "0 \<le> q" by (rule round_double_nonneg [OF x r])
  show "\<bar>q - d / p\<bar> \<le> max (d / p / 2 ^ 53) (1 / 2 ^ 1075)"
    by (rule round_double_relative [OF x r])
qed

section \<open>Properties of the steps of a run\<close>

lemma and_then_setup_step:
  assumes "setup_step r" and "\<And>evs x. r = (evs, Inr x) \<Longrightarrow> setup_step (f x)"
  shows "setup_step (and_then r f)"
proof (cases r)
  case (Pair evs res)
  show ?thesis
  proof (cases res)
    case (Inl s)
    with Pair assms(1) show ?thesis by (simp add: and_then_def setup_step_def)
  next
    case (Inr x)
    obtain evs' y where fx: "f x = (evs', y)" by (cases "f x")
    have s1: "setup_step (evs, Inr x :: stop + 'a)" using assms(1) Pair Inr by simp
    have s2: "setup_step (evs', y)" using assms(2) [of evs x] Pair Inr fx by simp
    have r: "and_then r f = (evs @ evs', y)" using Pair Inr fx by (simp add: and_then_def)
    show ?thesis unfolding r using s1 s2 by (fastforce simp: setup_step_def last_append)
  qed
qed

lemma setup_step_check_duration_pri: "setup_step (check_duration_pri e)"
  by (simp add: setup_step_def check_duration_pri_def)

lemma setup_step_load_waveform: "setup_step (load_waveform e)"
  by (simp add: setup_step_def load_waveform_def split: prod.splits)

lemma setup_step_set_common_options: "setup_step (set_common_options e)"
  by (auto simp: setup_step_def set_common_options_def report_def Let_def split: option.splits)

lemma setup_step_set_network_options: "setup_step (set_network_options e)"
  by (auto simp: setup_step_def set_network_options_def report_def split: option.splits)

lemma setup_step_set_tx_1ch_rate: "setup_step (set_tx_1ch_rate e)"
  by (auto simp: setup_step_def set_tx_1ch_rate_def report_def split: option.splits)

lemma setup_step_set_tx_1ch_freq: "setup_step (set_tx_1ch_freq e)"
  by (auto simp: setup_step_def set_tx_1ch_freq_def report_def split: option.splits)

lemma port_loop_events:
  "ev \<in> set (fst (port_loop r ant n)) \<Longrightarrow> \<exists>k. ev = Command (Set_tx_port k)"
proof (induction r ant n rule: port_loop.induct)
  case (1 r ant n)
  then show ?case
    by (subst (asm) (3) port_loop.simps) (auto split: if_splits prod.splits)
qed

lemma setup_step_set_tx_1ch_ant: "setup_step (set_tx_1ch_ant e)"
proof (cases "tx_ant (vm e)")
  case None
  then show ?thesis by (simp add: setup_step_def set_tx_1ch_ant_def)
next
  case (Some ant)
  obtain evs port_set where pl: "port_loop (radio e) ant 0 = (evs, port_set)"
    by (cases "port_loop (radio e) ant 0")
  have "\<forall>ev \<in> set evs. \<exists>k. ev = Command (Set_tx_port k)"
    using port_loop_events [of _ "radio e" ant 0] pl by simp
  then show ?thesis using Some pl
    by (auto simp: setup_step_def set_tx_1ch_ant_def)
qed

lemma setup_step_set_tx_1ch_gain: "setup_step (set_tx_1ch_gain e)"
  by (auto simp: setup_step_def set_tx_1ch_gain_def report_def split: option.splits)

lemma setup_step_bracketed_option: "setup_step (bracketed_option e str)"
  by (auto simp: setup_step_def bracketed_option_def split: sum.splits list_error.splits)

lemma setup_step_set_tx_1ch_iq_bias: "setup_step (set_tx_1ch_iq_bias e)"
proof (cases "tx_iq_bias (vm e)")
  case None
  then show ?thesis by (simp add: setup_step_def set_tx_1ch_iq_bias_def)
next
  case (Some str)
  have "setup_step (and_then (bracketed_option e str) (\<lambda>x.
      if size x \<noteq> 2 then ([Message (Requires_arguments ''set_tx_iq_bias'' 2)], Inr ())
      else (report (Set_tx_iq_bias x) (set_tx_iq_bias (radio e) x)
              ''set_tx_1ch_options'' ''set_tx_iq_bias'', Inr ())))"
    by (rule and_then_setup_step [OF setup_step_bracketed_option])
      (auto simp: setup_step_def report_def)
  then show ?thesis using Some by (simp add: set_tx_1ch_iq_bias_def)
qed

lemma setup_step_set_tx_1ch_iq_corr: "setup_step (set_tx_1ch_iq_corr e)"
proof (cases "tx_iq_corr (vm e)")
  case None
  then show ?thesis by (simp add: setup_step_def set_tx_1ch_iq_corr_def)
next
  case (Some str)
  have "setup_step (and_then (bracketed_option e str) (\<lambda>x.
      if size x \<noteq> 4 then ([Message (Requires_arguments ''set_tx_iq_corr'' 4)], Inr ())
      else (report (Set_tx_iq_corr x) (set_tx_iq_corr (radio e) x)
              ''set_tx_1ch_options'' ''set_tx_iq_corr'', Inr ())))"
    by (rule and_then_setup_step [OF setup_step_bracketed_option])
      (auto simp: setup_step_def report_def)
  then show ?thesis using Some by (simp add: set_tx_1ch_iq_corr_def)
qed

lemma setup_step_set_tx_1ch_options: "setup_step (set_tx_1ch_options e)"
  unfolding set_tx_1ch_options_def
  by (intro and_then_setup_step setup_step_set_tx_1ch_rate setup_step_set_tx_1ch_freq
      setup_step_set_tx_1ch_ant setup_step_set_tx_1ch_gain setup_step_set_tx_1ch_iq_bias
      setup_step_set_tx_1ch_iq_corr)

lemma setup_step_check_waveform_duration: "setup_step (check_waveform_duration e n)"
  by (simp add: setup_step_def check_waveform_duration_def Let_def)

lemma setup_step_main_until_buffer: "setup_step (main_until_buffer e)"
  unfolding main_until_buffer_def
  by (intro and_then_setup_step setup_step_check_duration_pri setup_step_load_waveform
      setup_step_set_common_options setup_step_set_network_options
      setup_step_set_tx_1ch_options setup_step_check_waveform_duration)
    (simp add: setup_step_def)

lemma main_try_split:
  "main_try e =
     and_then (main_until_buffer e) (\<lambda>(n_pulses, tx_wf).
     and_then (check_buffer e (size tx_wf)) (\<lambda>_.
     and_then (check_granularity e (size tx_wf)) (\<lambda>_.
     transmit e tx_wf (size tx_wf) n_pulses)))"
  by (simp add: main_try_def main_until_buffer_def and_then_def
      split: prod.splits sum.splits)

lemma main_until_buffer_Inr:
  assumes "main_until_buffer e = (evs, Inr (n_pulses, tx_wf))"
  shows "0 < duration (vm e)" and "0 \<le> pri (vm e)"
    and "n_pulses = find_n_pulses (duration (vm e)) (pri (vm e))"
    and "tx_waveform_file e = Some tx_wf" and "tx_wf \<noteq> []"
  using assms
  by (auto simp: main_until_buffer_def and_then_def check_duration_pri_def load_waveform_def
      read_cplx_16_def split: prod.splits sum.splits if_splits option.splits)





































section \<open>Properties of a run\<close>

text \<open>A run that stops before the buffer is looked at.\<close>

lemma main_stops_early:
  assumes "main_until_buffer e = (evs, Inl s)"
  shows "main e = (if s = Exception then (evs @ [Message Exception_caught], Exit 3)
                   else (evs, s))"
  using assms by (simp add: main_def main_try_split and_then_def split: stop.splits)

lemma main_goes_on:
  assumes "main_until_buffer e = (evs, Inr (n_pulses, tx_wf))"
  shows "main e =
     (case main_from_buffer e n_pulses tx_wf of
        (evs', Inr _) \<Rightarrow> (evs @ evs', Exit 0)
      | (evs', Inl Exception) \<Rightarrow> (evs @ evs' @ [Message Exception_caught], Exit 3)
      | (evs', Inl s) \<Rightarrow> (evs @ evs', s))"
  using assms
  by (simp add: main_def main_try_split main_from_buffer_def and_then_def
      split: prod.splits sum.splits stop.splits)


lemma early_not_upload: "early_event ev \<Longrightarrow> \<not> uploads_or_loops ev"
  by (cases ev) auto

lemma transmit_loop:
  assumes "Command (Tx_loop T n' p k') \<in> set (fst (transmit e tx_wf n k))"
  shows "n' = n \<and> k' = k \<and> p = llround (1000000000 * pri (vm e)) \<and>
     (\<exists>t. get_time_now (radio e) 1 = Some t \<and>
          T = (ceil_seconds t + 1) * nanoseconds_per_second)"
  using assms
  by (auto simp: transmit_def Let_def split: option.splits if_splits)

lemma transmit_messages:
  assumes "Message m \<in> set (fst (transmit e tx_wf n k))"
  shows "m = Unable_to_get_radio_time \<or> m = Error_sending_waveform_data \<or> m = Tx_loop_failed"
  using assms
  by (auto simp: transmit_def Let_def split: option.splits if_splits)

lemma upload_or_loop_origin:
  assumes ev: "ev \<in> set (events (main e))" and u: "uploads_or_loops ev"
  shows "\<exists>evs k tx_wf. main_until_buffer e = (evs, Inr (k, tx_wf)) \<and>
     ev \<in> set (fst (transmit e tx_wf (size tx_wf) k))"
proof -
  obtain evs res where b: "main_until_buffer e = (evs, res)"
    by (cases "main_until_buffer e")
  have su: "setup_step (evs, res)"
    using setup_step_main_until_buffer [of e] b by simp
  have notin: "ev \<notin> set evs"
    using su u early_not_upload by (auto simp: setup_step_def)
  show ?thesis
  proof (cases res)
    case (Inl s)
    then show ?thesis
      using main_stops_early [of e evs s] b ev u notin
      by (auto simp: events_def split: if_splits)
  next
    case (Inr x)
    obtain k tx_wf where x: "x = (k, tx_wf)" by (cases x)
    note me = main_goes_on [OF b [unfolded Inr x]]
    obtain evt y where t: "transmit e tx_wf (size tx_wf) k = (evt, y)"
      by (cases "transmit e tx_wf (size tx_wf) k")
    have "ev \<in> set evt"
      using ev u notin t unfolding me
      by (auto simp: events_def main_from_buffer_def and_then_def check_buffer_def
          check_granularity_def Let_def
          split: prod.splits sum.splits stop.splits option.splits if_splits)
    then show ?thesis using b Inr x t by auto
  qed
qed

lemma gap_message_origin:
  assumes "Message Gaps_will_occur \<in> set (events (main e))"
  shows "\<exists>evs k tx_wf. main_until_buffer e = (evs, Inr (k, tx_wf)) \<and>
     check_buffer e (size tx_wf) = ([], Inr ()) \<and>
     check_granularity e (size tx_wf) = ([Message Gaps_will_occur], Inr ())"
proof -
  obtain evs res where b: "main_until_buffer e = (evs, res)"
    by (cases "main_until_buffer e")
  have su: "setup_step (evs, res)"
    using setup_step_main_until_buffer [of e] b by simp
  have notin: "Message Gaps_will_occur \<notin> set evs"
    using su by (auto simp: setup_step_def)
  show ?thesis
  proof (cases res)
    case (Inl s)
    then show ?thesis
      using main_stops_early [of e evs s] b assms notin
      by (auto simp: events_def split: if_splits)
  next
    case (Inr x)
    obtain k tx_wf where x: "x = (k, tx_wf)" by (cases x)
    note me = main_goes_on [OF b [unfolded Inr x]]
    obtain evt y where t: "transmit e tx_wf (size tx_wf) k = (evt, y)"
      by (cases "transmit e tx_wf (size tx_wf) k")
    have nt: "Message Gaps_will_occur \<notin> set evt"
      using transmit_messages [of Gaps_will_occur e tx_wf "size tx_wf" k] t by auto
    have "check_buffer e (size tx_wf) = ([], Inr ()) \<and>
        check_granularity e (size tx_wf) = ([Message Gaps_will_occur], Inr ())"
      using assms notin nt t unfolding me
      by (auto simp: events_def main_from_buffer_def and_then_def check_buffer_def
          check_granularity_def Let_def
          split: prod.splits sum.splits stop.splits option.splits if_splits)
    then show ?thesis using b Inr x by auto
  qed
qed

lemma transmit_issues_loop:
  assumes "get_time_now (radio e) 0 = Some t1" and "get_time_now (radio e) 1 = Some t"
  shows "Command (Tx_loop ((ceil_seconds t + 1) * nanoseconds_per_second) n
            (llround (1000000000 * pri (vm e))) k)
     \<in> set (fst (transmit e tx_wf n k))"
  using assms by (simp add: transmit_def Let_def)

lemma main_includes_transmit:
  assumes b: "main_until_buffer e = (evs, Inr (n_pulses, tx_wf))"
    and cb: "snd (check_buffer e (size tx_wf)) = Inr ()"
    and cg: "snd (check_granularity e (size tx_wf)) = Inr ()"
    and ev: "ev \<in> set (fst (transmit e tx_wf (size tx_wf) n_pulses))"
  shows "ev \<in> set (events (main e))"
proof -
  obtain eb where eb: "check_buffer e (size tx_wf) = (eb, Inr ())"
    using cb by (cases "check_buffer e (size tx_wf)") auto
  obtain eg where eg: "check_granularity e (size tx_wf) = (eg, Inr ())"
    using cg by (cases "check_granularity e (size tx_wf)") auto
  obtain et y where et: "transmit e tx_wf (size tx_wf) n_pulses = (et, y)"
    by (cases "transmit e tx_wf (size tx_wf) n_pulses")
  show ?thesis
    using ev et unfolding main_goes_on [OF b]
    by (auto simp: events_def main_from_buffer_def and_then_def eb eg
        split: sum.splits stop.splits)
qed


text \<open>
  A run that has passed the checks and gets both readings of the device time uploads
  the waveform and then issues the loop command; its status tells whether the device
  accepted the loop.
\<close>

lemma check_buffer_Inr:
  "snd (check_buffer e n) = Inr () \<Longrightarrow> check_buffer e n = ([], Inr ())"
  by (auto simp: check_buffer_def Let_def split: option.splits if_splits)

lemma transmit_answered:
  assumes "get_time_now (radio e) 0 = Some t1" and "get_time_now (radio e) 1 = Some t"
  shows "\<exists>rest. transmit e tx_wf n k =
       (Command (Put_tx_data tx_wf) # rest,
        if tx_loop (radio e) ((ceil_seconds t + 1) * nanoseconds_per_second) n
             (llround (1000000000 * pri (vm e))) k
        then Inr () else Inl (Exit 1)) \<and>
     Command (Tx_loop ((ceil_seconds t + 1) * nanoseconds_per_second) n
            (llround (1000000000 * pri (vm e))) k) \<in> set rest"
  using assms by (simp add: transmit_def Let_def)

lemma main_after_checks:
  assumes b: "main_until_buffer e = (evs, Inr (n_pulses, tx_wf))"
    and cb: "snd (check_buffer e (size tx_wf)) = Inr ()"
    and cg: "check_granularity e (size tx_wf) = (eg, Inr ())"
    and t1: "get_time_now (radio e) 0 = Some t1"
    and t2: "get_time_now (radio e) 1 = Some t"
  shows "\<exists>rest. events (main e) = evs @ eg @ Command (Put_tx_data tx_wf) # rest \<and>
     Command (Tx_loop ((ceil_seconds t + 1) * nanoseconds_per_second) (size tx_wf)
            (llround (1000000000 * pri (vm e))) n_pulses) \<in> set rest \<and>
     status (main e) =
       (if tx_loop (radio e) ((ceil_seconds t + 1) * nanoseconds_per_second) (size tx_wf)
             (llround (1000000000 * pri (vm e))) n_pulses
        then Exit 0 else Exit 1)"
proof -
  obtain rest where t: "transmit e tx_wf (size tx_wf) n_pulses =
       (Command (Put_tx_data tx_wf) # rest,
        if tx_loop (radio e) ((ceil_seconds t + 1) * nanoseconds_per_second) (size tx_wf)
             (llround (1000000000 * pri (vm e))) n_pulses
        then Inr () else Inl (Exit 1))"
    and l: "Command (Tx_loop ((ceil_seconds t + 1) * nanoseconds_per_second) (size tx_wf)
            (llround (1000000000 * pri (vm e))) n_pulses) \<in> set rest"
    using transmit_answered [OF t1 t2, of tx_wf "size tx_wf" n_pulses] by blast
  have mf: "main_from_buffer e n_pulses tx_wf =
       (eg @ Command (Put_tx_data tx_wf) # rest,
        if tx_loop (radio e) ((ceil_seconds t + 1) * nanoseconds_per_second) (size tx_wf)
             (llround (1000000000 * pri (vm e))) n_pulses
        then Inr () else Inl (Exit 1))"
    by (simp add: main_from_buffer_def and_then_def check_buffer_Inr [OF cb] cg t)
  show ?thesis
    unfolding main_goes_on [OF b] mf using l
    by (simp add: events_def status_def)
qed



section \<open>Concrete runs\<close>

lemmas run_defs = main_def main_try_def and_then_def check_duration_pri_def find_n_pulses_def
  llround_def llround_double_def double_div_def round_double_def binade_def
  to_nearest_even_def pow2_def compute_bitlen waveform_duration_def double_greater_def
  wrap_int64_def load_waveform_def read_cplx_16_def set_common_options_def tolower_def t_set_def
  msecs_after_epoch ceil_seconds_eq
  nanoseconds_per_second_def nanoseconds_per_millisecond_def max_host_clock_error_ms_def
  report_def set_network_options_def set_tx_1ch_options_def set_tx_1ch_rate_def
  set_tx_1ch_freq_def set_tx_1ch_ant_def set_tx_1ch_gain_def set_tx_1ch_iq_bias_def
  set_tx_1ch_iq_corr_def check_waveform_duration_def
  check_buffer_def check_granularity_def transmit_def
  example_environment_def example_options_def example_radio_def example_waveform_def
  Let_def

lemma main_example:
  "main example_environment =
     ([Sleep_until 43200800000000, Command (Set_time_next_pps 43201000000000),
       Command (Set_tx_rate 1000000), Command (Set_tx_freq 2400000000),
       Command (Set_tx_gain 0), Command (Put_tx_data example_waveform),
       Command (Tx_loop 43204000000000 4 2000000000 5), Sleep_until 43214100000000],
      Exit 0)"
  by (simp add: run_defs)


text \<open>No answer to \<open>hello\<close>, back-to-back looping, and a granularity of 3.\<close>

lemma main_no_hello:
  "main (example_environment
           \<lparr>vm := example_options\<lparr>pri := 0\<rparr>,
            radio := example_radio\<lparr>hello := None, compute_sample_granularity := (\<lambda>w. 3)\<rparr>\<rparr>) =
     ([Sleep_until 43200800000000, Command (Set_time_next_pps 43201000000000),
       Command (Set_tx_rate 1000000), Command (Set_tx_freq 2400000000),
       Command (Set_tx_gain 0), Command (Put_tx_data example_waveform),
       Command (Tx_loop 43204000000000 4 0 0), Sleep_until 43214100000000],
      Exit 0)"
  by (simp add: run_defs)

lemma main_gap:
  "main (example_environment
           \<lparr>vm := example_options\<lparr>pri := 0\<rparr>,
            radio := example_radio\<lparr>compute_sample_granularity := (\<lambda>w. 3)\<rparr>\<rparr>) =
     ([Sleep_until 43200800000000, Command (Set_time_next_pps 43201000000000),
       Command (Set_tx_rate 1000000), Command (Set_tx_freq 2400000000),
       Command (Set_tx_gain 0), Message Gaps_will_occur,
       Command (Put_tx_data example_waveform),
       Command (Tx_loop 43204000000000 4 0 0), Sleep_until 43214100000000],
      Exit 0)"
  by (simp add: run_defs)

text \<open>
  A bracketed list of three numbers where two are required: the error is reported, the
  setter is not called, and the run goes on to upload and loop.
\<close>

lemma main_wrong_length_list:
  "main (example_environment\<lparr>vm := example_options\<lparr>tx_iq_bias := Some ''[1,2,3]''\<rparr>\<rparr>) =
     ([Sleep_until 43200800000000, Command (Set_time_next_pps 43201000000000),
       Command (Set_tx_rate 1000000), Command (Set_tx_freq 2400000000),
       Command (Set_tx_gain 0), Message (Requires_arguments ''set_tx_iq_bias'' 2),
       Command (Put_tx_data example_waveform),
       Command (Tx_loop 43204000000000 4 2000000000 5), Sleep_until 43214100000000],
      Exit 0)"
  by (simp add: run_defs bracketed_option_def interpret_bracketed_list_def
      find_bracket.simps left_brackets_def right_brackets_def read_numbers.simps getline_def
      c_str_def stod_dec_1 stod_dec_2 stod_dec_3)


text \<open>
  Quotients of doubles: one half over the double nearest to 0.2 is the double 2.5, and
  four over three is the double nearest to 4 / 3.
\<close>

lemma double_div_examples:
  "double_div (1 / 2) (3602879701896397 / 18014398509481984) = Finite (5 / 2)"
  "double_div 10 2 = Finite 5"
  "double_div 4 3 = Finite (6004799503160661 / 4503599627370496)"
  "double_div 1 (1 / 2 ^ 64) = Finite (2 ^ 64)"
  by (simp_all add: double_div_def round_double_def binade_def to_nearest_even_def pow2_def
      Let_def compute_bitlen)


lemma find_n_pulses_examples:
  "find_n_pulses 10 2 = 5"
  "find_n_pulses (1 / 2) (3602879701896397 / 18014398509481984) = 3"
  "find_n_pulses 1 (1 / 2 ^ 64) = 9223372036854775808"
  by (simp_all add: find_n_pulses_def llround_double_def llround_def double_div_def
      round_double_def binade_def to_nearest_even_def pow2_def Let_def compute_bitlen)


text \<open>
  A duration of one second with a period of \<open>2 ^ - 64\<close> seconds, on a device that does
  not tell its rate.
\<close>

lemma main_tiny_period:
  "main (example_environment
           \<lparr>vm := example_options\<lparr>duration := 1, pri := 1 / 2 ^ 64\<rparr>,
            radio := example_radio\<lparr>get_tx_rate := None\<rparr>\<rparr>) =
     ([Sleep_until 43200800000000, Command (Set_time_next_pps 43201000000000),
       Command (Set_tx_rate 1000000), Command (Set_tx_freq 2400000000),
       Command (Set_tx_gain 0), Command (Put_tx_data example_waveform),
       Command (Tx_loop 43204000000000 4 0 9223372036854775808),
       Sleep_until 43205100000000],
      Exit 0)"
  by (simp add: run_defs)

section \<open>The claims about a run\<close>

text \<open>
  Claim C8. Whenever a run issues the loop command, the device answered the second
  reading of its time (the one taken after the clock has been set) with some \<open>t\<close>, and
  the start instant of the command is the ceiling of \<open>t\<close> to whole seconds plus one
  second. And a run that passes the checks and gets both readings does issue the loop
  command, with that start instant.
\<close>

theorem start_instant:
  "(Command (Tx_loop t_start n p k) \<in> set (events (main e)) \<longrightarrow>
      (\<exists>t. get_time_now (radio e) 1 = Some t \<and>
           t_start = \<lceil>real_of_int t / 1000000000\<rceil> * 1000000000 + 1000000000)) \<and>
   (main_until_buffer e = (evs, Inr (n_pulses, tx_wf)) \<and>
    snd (check_buffer e (size tx_wf)) = Inr () \<and>
    snd (check_granularity e (size tx_wf)) = Inr () \<and>
    get_time_now (radio e) 0 = Some t1 \<and> get_time_now (radio e) 1 = Some t2 \<longrightarrow>
      Command (Tx_loop (\<lceil>real_of_int t2 / 1000000000\<rceil> * 1000000000 + 1000000000)
                 (size tx_wf) (llround (1000000000 * pri (vm e))) n_pulses)
        \<in> set (events (main e)))"
proof (intro conjI impI)
  assume a: "Command (Tx_loop t_start n p k) \<in> set (events (main e))"
  obtain evs k' tx_wf where
    "Command (Tx_loop t_start n p k) \<in> set (fst (transmit e tx_wf (size tx_wf) k'))"
    using upload_or_loop_origin [OF a] by auto
  from transmit_loop [OF this]
  show "\<exists>t. get_time_now (radio e) 1 = Some t \<and>
     t_start = \<lceil>real_of_int t / 1000000000\<rceil> * 1000000000 + 1000000000"
    by (auto simp: ceil_seconds_ceiling nanoseconds_per_second_def algebra_simps)
next
  assume r: "main_until_buffer e = (evs, Inr (n_pulses, tx_wf)) \<and>
    snd (check_buffer e (size tx_wf)) = Inr () \<and>
    snd (check_granularity e (size tx_wf)) = Inr () \<and>
    get_time_now (radio e) 0 = Some t1 \<and> get_time_now (radio e) 1 = Some t2"
  have "Command (Tx_loop ((ceil_seconds t2 + 1) * nanoseconds_per_second) (size tx_wf)
            (llround (1000000000 * pri (vm e))) n_pulses)
     \<in> set (events (main e))"
    using r transmit_issues_loop [of e t1 t2 "size tx_wf" n_pulses tx_wf]
      main_includes_transmit [of e evs n_pulses tx_wf]
    by blast
  then show "Command (Tx_loop (\<lceil>real_of_int t2 / 1000000000\<rceil> * 1000000000 + 1000000000)
                 (size tx_wf) (llround (1000000000 * pri (vm e))) n_pulses)
        \<in> set (events (main e))"
    by (simp add: ceil_seconds_ceiling nanoseconds_per_second_def algebra_simps)
qed

theorem start_instant_witness:
  "Command (Tx_loop 43204000000000 4 2000000000 5) \<in> set (events (main example_environment))
   \<and> get_time_now (radio example_environment) 1 = Some 43202250000001
   \<and> (43204000000000 :: int) = \<lceil>real_of_int 43202250000001 / 1000000000\<rceil> * 1000000000
        + 1000000000"
proof -
  have a: "Command (Tx_loop 43204000000000 4 2000000000 5)
      \<in> set (events (main example_environment))"
    by (simp add: main_example events_def)
  have b: "get_time_now (radio example_environment) 1 = Some 43202250000001"
    by (simp add: example_environment_def example_radio_def)
  from start_instant [of 43204000000000 4 2000000000 5 example_environment] a b
  show ?thesis by auto
qed

text \<open>
  Claim C7, as amended. For a positive duration, the number of repetitions is 0 when the
  period is 0. When the period is positive, the quotient of duration and period is
  computed as a double \<open>q\<close>, which differs from the exact quotient by at most one part in
  \<open>2 ^ 53\<close> of it (or \<open>2 ^ - 1075\<close>), and the number of repetitions is \<open>q\<close> rounded to the
  nearest integer, halves away from zero, when that integer is below \<open>2 ^ 63\<close>. Whenever a
  run issues the loop command, the duration is positive, the period is not negative, and
  the repetition count of the command is that number.
\<close>

theorem repetition_count:
  "(0 < d \<and> 0 < p \<and> double_div d p = Finite q \<and> round q < 2 ^ 63 \<longrightarrow>
      int (find_n_pulses d p) = round q \<and>
      \<bar>q - d / p\<bar> \<le> max (d / p / 2 ^ 53) (1 / 2 ^ 1075)) \<and>
   find_n_pulses d 0 = 0 \<and>
   (Command (Tx_loop t_start n r k) \<in> set (events (main e)) \<longrightarrow>
      0 < duration (vm e) \<and> 0 \<le> pri (vm e) \<and>
      k = find_n_pulses (duration (vm e)) (pri (vm e)))"
proof (intro conjI impI)
  assume a: "0 < d \<and> 0 < p \<and> double_div d p = Finite q \<and> round q < 2 ^ 63"
  then have q: "0 \<le> q" using double_div_close(1) [of d p q] by simp
  have l: "llround q = round q" using q a by (simp add: llround_round)
  have "0 \<le> round q" using q by (simp add: round_def)
  then have "round q mod 2 ^ 64 = round q" using a by simp
  then show "int (find_n_pulses d p) = round q"
    using a l \<open>0 \<le> round q\<close> by (simp add: find_n_pulses_def llround_double_def)
  show "\<bar>q - d / p\<bar> \<le> max (d / p / 2 ^ 53) (1 / 2 ^ 1075)"
    using a double_div_close(2) [of d p q] by simp
next
  show "find_n_pulses d 0 = 0" by (simp add: find_n_pulses_def)
next
  assume a: "Command (Tx_loop t_start n r k) \<in> set (events (main e))"
  obtain evs k' tx_wf where b: "main_until_buffer e = (evs, Inr (k', tx_wf))"
    and t: "Command (Tx_loop t_start n r k) \<in> set (fst (transmit e tx_wf (size tx_wf) k'))"
    using upload_or_loop_origin [OF a] by auto
  show "0 < duration (vm e)" by (rule main_until_buffer_Inr(1) [OF b])
  show "0 \<le> pri (vm e)" by (rule main_until_buffer_Inr(2) [OF b])
  show "k = find_n_pulses (duration (vm e)) (pri (vm e))"
    using transmit_loop [OF t] main_until_buffer_Inr(3) [OF b] by simp
qed

theorem repetition_count_witness:
  "find_n_pulses 10 2 = 5 \<and> double_div 10 2 = Finite 5 \<and> round (5 :: real) = 5 \<and>
   find_n_pulses (1 / 2) (3602879701896397 / 18014398509481984) = 3 \<and>
   double_div (1 / 2) (3602879701896397 / 18014398509481984) = Finite (5 / 2) \<and>
   round (5 / 2 :: real) = 3 \<and>
   Command (Tx_loop 43204000000000 4 2000000000 5) \<in> set (events (main example_environment))
   \<and> duration (vm example_environment) = 10 \<and> pri (vm example_environment) = 2"
proof -
  have a: "Command (Tx_loop 43204000000000 4 2000000000 5)
      \<in> set (events (main example_environment))"
    by (simp add: main_example events_def)
  have r: "round (5 :: real) = 5" "round (5 / 2 :: real) = 3" by (simp_all add: round_def)
  have "int (find_n_pulses 10 2) = 5"
    using repetition_count [where d = 10 and p = 2 and q = 5 and t_start = 43204000000000
        and n = 4 and r = 2000000000 and k = 5 and e = example_environment]
      double_div_examples(2) r(1)
    by simp
  then have x: "find_n_pulses 10 2 = 5" by simp
  have "int (find_n_pulses (1 / 2) (3602879701896397 / 18014398509481984)) = 3"
    using repetition_count [where d = "1 / 2" and p = "3602879701896397 / 18014398509481984"
        and q = "5 / 2" and t_start = 43204000000000
        and n = 4 and r = 2000000000 and k = 5 and e = example_environment]
      double_div_examples(1) r(2)
    by simp
  then have y: "find_n_pulses (1 / 2) (3602879701896397 / 18014398509481984) = 3" by simp
  have b: "duration (vm example_environment) = 10 \<and> pri (vm example_environment) = 2"
    using repetition_count [where d = 10 and p = 2 and q = 5 and t_start = 43204000000000
        and n = 4 and r = 2000000000 and k = 5 and e = example_environment] a x
    by (simp add: example_environment_def example_options_def)
  from a b r x y double_div_examples(1,2) show ?thesis by simp
qed

text \<open>
  The claim as stated fails for a duration of one second and a period of \<open>2 ^ - 64\<close>
  seconds: the run issues the loop command, and its repetition count is \<open>2 ^ 63\<close>, not
  the rounded quotient \<open>2 ^ 64\<close>, which no \<open>size_t\<close> holds.
\<close>

theorem repetition_count_counterexample:
  "Command (Tx_loop 43204000000000 4 0 9223372036854775808)
     \<in> set (events (main (example_environment
           \<lparr>vm := example_options\<lparr>duration := 1, pri := 1 / 2 ^ 64\<rparr>,
            radio := example_radio\<lparr>get_tx_rate := None\<rparr>\<rparr>))) \<and>
   round ((1 :: real) / (1 / 2 ^ 64)) = (18446744073709551616 :: int)"
  using main_tiny_period by (simp add: events_def round_def)

text \<open>
  Claim C4. When the device reports its buffers, the check of the buffer passes exactly
  when the number of samples is at most the capacity in samples, the size of the
  transmit buffer in bytes divided (as integers) by the size of a wire sample. Otherwise
  it reports the capacity and the number of samples needed and ends the program with
  status 1; a run that gets to the check with more samples than the capacity ends there.
\<close>

theorem buffer_fit:
  assumes "get_buffer_info (radio e) = Some bsize" and "1 < size bsize"
  shows "(check_buffer e n = ([], Inr ()) \<longleftrightarrow> n \<le> bsize ! 1 div sizeof_wire_sample e) \<and>
     (\<not> n \<le> bsize ! 1 div sizeof_wire_sample e \<longrightarrow>
        check_buffer e n =
          ([Message (Will_not_fit_in_tx_buffer (bsize ! 1 div sizeof_wire_sample e) n)],
           Inl (Exit 1))) \<and>
     (main_until_buffer e = (evs, Inr (n_pulses, tx_wf)) \<and>
      \<not> size tx_wf \<le> bsize ! 1 div sizeof_wire_sample e \<longrightarrow>
        main e =
          (evs @ [Message (Will_not_fit_in_tx_buffer (bsize ! 1 div sizeof_wire_sample e)
                    (size tx_wf))],
           Exit 1))"
proof -
  have c: "check_buffer e n =
      (if n \<le> bsize ! 1 div sizeof_wire_sample e then ([], Inr ())
       else ([Message (Will_not_fit_in_tx_buffer (bsize ! 1 div sizeof_wire_sample e) n)],
             Inl (Exit 1)))" for n
    using assms by (simp add: check_buffer_def Let_def)
  have "main e =
      (evs @ [Message (Will_not_fit_in_tx_buffer (bsize ! 1 div sizeof_wire_sample e)
                (size tx_wf))], Exit 1)"
    if "main_until_buffer e = (evs, Inr (n_pulses, tx_wf))"
      and "\<not> size tx_wf \<le> bsize ! 1 div sizeof_wire_sample e"
    using that c [of "size tx_wf"] main_goes_on [OF that(1)]
    by (simp add: main_from_buffer_def and_then_def)
  then show ?thesis using c [of n] by simp
qed

theorem buffer_fit_witness:
  "get_buffer_info (radio example_environment) = Some [32, 32] \<and>
   check_buffer example_environment 8 = ([], Inr ()) \<and>
   check_buffer example_environment 9
     = ([Message (Will_not_fit_in_tx_buffer 8 9)], Inl (Exit 1)) \<and>
   main (example_environment
           \<lparr>vm := example_options\<lparr>time_source := Some ''host''\<rparr>,
            radio := example_radio\<lparr>get_buffer_info := Some [8, 8]\<rparr>\<rparr>) =
     ([Command (Set_time_now 43200500000000),
       Command (Set_tx_rate 1000000), Command (Set_tx_freq 2400000000),
       Command (Set_tx_gain 0), Message (Will_not_fit_in_tx_buffer 2 4)],
      Exit 1)"
proof -
  have g: "get_buffer_info (radio example_environment) = Some [32, 32]"
    by (simp add: example_environment_def example_radio_def)
  have s: "sizeof_wire_sample example_environment = 4"
    by (simp add: example_environment_def)
  have a: "check_buffer example_environment 8 = ([], Inr ())"
    using buffer_fit [OF g, of 8] s by simp
  have b: "check_buffer example_environment 9
     = ([Message (Will_not_fit_in_tx_buffer 8 9)], Inl (Exit 1))"
    using buffer_fit [OF g, of 9] s by simp
  let ?e = "example_environment
           \<lparr>vm := example_options\<lparr>time_source := Some ''host''\<rparr>,
            radio := example_radio\<lparr>get_buffer_info := Some [8, 8]\<rparr>\<rparr>"
  have u: "main_until_buffer ?e =
     ([Command (Set_time_now 43200500000000),
       Command (Set_tx_rate 1000000), Command (Set_tx_freq 2400000000),
       Command (Set_tx_gain 0)], Inr (5, example_waveform))"
    by (simp add: main_until_buffer_def run_defs)
  have g': "get_buffer_info (radio ?e) = Some [8, 8]"
    by (simp add: example_environment_def)
  have c: "main ?e =
     ([Command (Set_time_now 43200500000000),
       Command (Set_tx_rate 1000000), Command (Set_tx_freq 2400000000),
       Command (Set_tx_gain 0), Message (Will_not_fit_in_tx_buffer 2 4)],
      Exit 1)"
    using buffer_fit [OF g', of _ _ _ example_waveform] u
    by (simp add: example_environment_def example_waveform_def)
  from g a b c show ?thesis by blast
qed

text \<open>
  Claim C5. When the device answers \<open>hello\<close> and the granularity computed from the wire
  format is positive, the check of the granularity gives the warning exactly when the
  period is 0 and the number of samples is no multiple of the granularity. The check
  never ends the run: a run that gives the warning goes on with the transmission, whose
  events follow the warning. When the device then gives both readings of its time, the
  run uploads the waveform of the file right after the warning and issues the loop
  command for it (with period 0 and repetition count 0), and it ends with status 0
  when the device accepts the loop.
\<close>

theorem gap_warning:
  assumes "hello (radio e) = Some hello_info" and "5 < size hello_info"
    and "0 < compute_sample_granularity (radio e) (hello_info ! 5)"
  shows "check_granularity e n =
       (if pri (vm e) = 0 \<and> n mod compute_sample_granularity (radio e) (hello_info ! 5) \<noteq> 0
        then [Message Gaps_will_occur] else [], Inr ()) \<and>
     (0 < pri (vm e) \<longrightarrow> check_granularity e n = ([], Inr ())) \<and>
     (Message Gaps_will_occur \<in> set (events (main e)) \<longrightarrow>
        (\<exists>evs n_pulses tx_wf.
           main_until_buffer e = (evs, Inr (n_pulses, tx_wf)) \<and>
           pri (vm e) = 0 \<and>
           size tx_wf mod compute_sample_granularity (radio e) (hello_info ! 5) \<noteq> 0 \<and>
           main e =
             (case transmit e tx_wf (size tx_wf) n_pulses of
                (evs', Inr _) \<Rightarrow> (evs @ Message Gaps_will_occur # evs', Exit 0)
              | (evs', Inl Exception) \<Rightarrow>
                  (evs @ Message Gaps_will_occur # evs' @ [Message Exception_caught], Exit 3)
              | (evs', Inl s) \<Rightarrow> (evs @ Message Gaps_will_occur # evs', s)))) \<and>
     (Message Gaps_will_occur \<in> set (events (main e)) \<and>
      get_time_now (radio e) 0 = Some t1 \<and> get_time_now (radio e) 1 = Some t2 \<longrightarrow>
        (\<exists>evs tx_wf rest.
           tx_waveform_file e = Some tx_wf \<and>
           events (main e) =
             evs @ Message Gaps_will_occur # Command (Put_tx_data tx_wf) # rest \<and>
           Command (Tx_loop (\<lceil>real_of_int t2 / 1000000000\<rceil> * 1000000000 + 1000000000)
                      (size tx_wf) 0 0) \<in> set rest \<and>
           status (main e) =
             (if tx_loop (radio e) (\<lceil>real_of_int t2 / 1000000000\<rceil> * 1000000000 + 1000000000)
                   (size tx_wf) 0 0
              then Exit 0 else Exit 1)))"
proof -
  have c: "check_granularity e n =
       (if pri (vm e) = 0 \<and> n mod compute_sample_granularity (radio e) (hello_info ! 5) \<noteq> 0
        then [Message Gaps_will_occur] else [], Inr ())" for n
    using assms by (simp add: check_granularity_def Let_def)
  have m: "\<exists>evs n_pulses tx_wf.
           main_until_buffer e = (evs, Inr (n_pulses, tx_wf)) \<and>
           pri (vm e) = 0 \<and>
           size tx_wf mod compute_sample_granularity (radio e) (hello_info ! 5) \<noteq> 0 \<and>
           main e =
             (case transmit e tx_wf (size tx_wf) n_pulses of
                (evs', Inr _) \<Rightarrow> (evs @ Message Gaps_will_occur # evs', Exit 0)
              | (evs', Inl Exception) \<Rightarrow>
                  (evs @ Message Gaps_will_occur # evs' @ [Message Exception_caught], Exit 3)
              | (evs', Inl s) \<Rightarrow> (evs @ Message Gaps_will_occur # evs', s))"
    if g: "Message Gaps_will_occur \<in> set (events (main e))"
  proof -
    obtain evs n_pulses tx_wf where b: "main_until_buffer e = (evs, Inr (n_pulses, tx_wf))"
      and cb: "check_buffer e (size tx_wf) = ([], Inr ())"
      and cg: "check_granularity e (size tx_wf) = ([Message Gaps_will_occur], Inr ())"
      using gap_message_origin [OF g] by auto
    have p: "pri (vm e) = 0 \<and>
        size tx_wf mod compute_sample_granularity (radio e) (hello_info ! 5) \<noteq> 0"
      using cg c [of "size tx_wf"] by (auto split: if_splits)
    have "main e =
             (case transmit e tx_wf (size tx_wf) n_pulses of
                (evs', Inr _) \<Rightarrow> (evs @ Message Gaps_will_occur # evs', Exit 0)
              | (evs', Inl Exception) \<Rightarrow>
                  (evs @ Message Gaps_will_occur # evs' @ [Message Exception_caught], Exit 3)
              | (evs', Inl s) \<Rightarrow> (evs @ Message Gaps_will_occur # evs', s))"
      using main_goes_on [OF b] cb cg
      by (simp add: main_from_buffer_def and_then_def split: prod.splits sum.splits stop.splits)
    with b p show ?thesis by blast
  qed
  have u: "\<exists>evs tx_wf rest.
           tx_waveform_file e = Some tx_wf \<and>
           events (main e) =
             evs @ Message Gaps_will_occur # Command (Put_tx_data tx_wf) # rest \<and>
           Command (Tx_loop (\<lceil>real_of_int t2 / 1000000000\<rceil> * 1000000000 + 1000000000)
                      (size tx_wf) 0 0) \<in> set rest \<and>
           status (main e) =
             (if tx_loop (radio e) (\<lceil>real_of_int t2 / 1000000000\<rceil> * 1000000000 + 1000000000)
                   (size tx_wf) 0 0
              then Exit 0 else Exit 1)"
    if g: "Message Gaps_will_occur \<in> set (events (main e))"
      and t1: "get_time_now (radio e) 0 = Some t1"
      and t2: "get_time_now (radio e) 1 = Some t2"
  proof -
    obtain evs n_pulses tx_wf where b: "main_until_buffer e = (evs, Inr (n_pulses, tx_wf))"
      and cb: "check_buffer e (size tx_wf) = ([], Inr ())"
      and cg: "check_granularity e (size tx_wf) = ([Message Gaps_will_occur], Inr ())"
      using gap_message_origin [OF g] by auto
    have p: "pri (vm e) = 0"
      using cg c [of "size tx_wf"] by (auto split: if_splits)
    have k: "n_pulses = 0"
      using main_until_buffer_Inr(3) [OF b] p by (simp add: find_n_pulses_def)
    have f: "tx_waveform_file e = Some tx_wf"
      using main_until_buffer_Inr(4) [OF b] by simp
    have cb': "snd (check_buffer e (size tx_wf)) = Inr ()" using cb by simp
    have T: "(ceil_seconds t2 + 1) * nanoseconds_per_second
        = \<lceil>real_of_int t2 / 1000000000\<rceil> * 1000000000 + 1000000000"
      by (simp add: ceil_seconds_ceiling nanoseconds_per_second_def algebra_simps)
    have z: "llround (1000000000 * pri (vm e)) = 0" using p by (simp add: llround_def)
    obtain rest where r:
      "events (main e) = evs @ [Message Gaps_will_occur] @ Command (Put_tx_data tx_wf) # rest"
      "Command (Tx_loop (\<lceil>real_of_int t2 / 1000000000\<rceil> * 1000000000 + 1000000000)
                      (size tx_wf) 0 0) \<in> set rest"
      "status (main e) =
             (if tx_loop (radio e) (\<lceil>real_of_int t2 / 1000000000\<rceil> * 1000000000 + 1000000000)
                   (size tx_wf) 0 0
              then Exit 0 else Exit 1)"
      using main_after_checks [OF b cb' cg t1 t2] unfolding T z k by blast
    show ?thesis
      apply (rule exI [of _ evs])
      apply (rule exI [of _ tx_wf])
      apply (rule exI [of _ rest])
      using f r by simp
  qed
  from c [of n] m u show ?thesis by auto
qed

theorem gap_warning_witness:
  "hello (radio example_environment) = Some [0, 0, 0, 0, 0, 3, 0, 0] \<and>
   check_granularity
     (example_environment
        \<lparr>vm := example_options\<lparr>pri := 0\<rparr>,
         radio := example_radio\<lparr>compute_sample_granularity := (\<lambda>w. 256)\<rparr>\<rparr>) 1024
     = ([], Inr ()) \<and>
   check_granularity
     (example_environment
        \<lparr>vm := example_options\<lparr>pri := 0\<rparr>,
         radio := example_radio\<lparr>compute_sample_granularity := (\<lambda>w. 256)\<rparr>\<rparr>) 1000
     = ([Message Gaps_will_occur], Inr ()) \<and>
   check_granularity
     (example_environment
        \<lparr>radio := example_radio\<lparr>compute_sample_granularity := (\<lambda>w. 256)\<rparr>\<rparr>) 1000
     = ([], Inr ()) \<and>
   Message Gaps_will_occur
     \<in> set (events (main (example_environment
           \<lparr>vm := example_options\<lparr>pri := 0\<rparr>,
            radio := example_radio\<lparr>compute_sample_granularity := (\<lambda>w. 3)\<rparr>\<rparr>))) \<and>
   (\<exists>evs rest.
      events (main (example_environment
           \<lparr>vm := example_options\<lparr>pri := 0\<rparr>,
            radio := example_radio\<lparr>compute_sample_granularity := (\<lambda>w. 3)\<rparr>\<rparr>)) =
        evs @ Message Gaps_will_occur # Command (Put_tx_data example_waveform) # rest \<and>
      Command (Tx_loop 43204000000000 4 0 0) \<in> set rest) \<and>
   status (main (example_environment
           \<lparr>vm := example_options\<lparr>pri := 0\<rparr>,
            radio := example_radio\<lparr>compute_sample_granularity := (\<lambda>w. 3)\<rparr>\<rparr>)) = Exit 0"
proof -
  let ?e0 = "example_environment
        \<lparr>vm := example_options\<lparr>pri := 0\<rparr>,
         radio := example_radio\<lparr>compute_sample_granularity := (\<lambda>w. 256)\<rparr>\<rparr>"
  let ?e2 = "example_environment
        \<lparr>radio := example_radio\<lparr>compute_sample_granularity := (\<lambda>w. 256)\<rparr>\<rparr>"
  let ?e3 = "example_environment
           \<lparr>vm := example_options\<lparr>pri := 0\<rparr>,
            radio := example_radio\<lparr>compute_sample_granularity := (\<lambda>w. 3)\<rparr>\<rparr>"
  have h: "hello (radio example_environment) = Some [0, 0, 0, 0, 0, 3, 0, 0]"
    by (simp add: example_environment_def example_radio_def)
  have h0: "hello (radio ?e0) = Some [0, 0, 0, 0, 0, 3, 0, 0]"
    and h2: "hello (radio ?e2) = Some [0, 0, 0, 0, 0, 3, 0, 0]"
    and h3: "hello (radio ?e3) = Some [0, 0, 0, 0, 0, 3, 0, 0]"
    by (simp_all add: example_radio_def)
  have a: "check_granularity ?e0 1024 = ([], Inr ())"
    using gap_warning [OF h0, of 1024] by (simp add: example_options_def)
  have b: "check_granularity ?e0 1000 = ([Message Gaps_will_occur], Inr ())"
    using gap_warning [OF h0, of 1000] by (simp add: example_options_def)
  have c: "check_granularity ?e2 1000 = ([], Inr ())"
    using gap_warning [OF h2, of 1000]
    by (simp add: example_environment_def example_options_def)
  have d: "Message Gaps_will_occur \<in> set (events (main ?e3))"
    by (simp add: main_gap events_def)
  have t: "get_time_now (radio ?e3) 0 = Some 43202250000000"
    "get_time_now (radio ?e3) 1 = Some 43202250000001"
    "tx_waveform_file ?e3 = Some example_waveform"
    "tx_loop (radio ?e3) 43204000000000 4 0 0"
    by (simp_all add: example_radio_def example_environment_def)
  have g: "(\<lceil>real_of_int 43202250000001 / 1000000000\<rceil> * 1000000000 + 1000000000 :: int)
      = 43204000000000"
    by (simp add: ceiling_eq_iff)
  have s: "size example_waveform = 4" by (simp add: example_waveform_def)
  have p: "5 < size [0, 0, 0, 0, 0, 3, 0, 0 :: 32 word]"
    and q: "0 < compute_sample_granularity (radio ?e3) ([0, 0, 0, 0, 0, 3, 0, 0] ! 5)"
    by simp_all
  note w = gap_warning [OF h3 p q, of 4 43202250000000 43202250000001]
  from w d t(1,2) obtain evs tx_wf rest where
    o: "tx_waveform_file ?e3 = Some tx_wf"
      "events (main ?e3) = evs @ Message Gaps_will_occur # Command (Put_tx_data tx_wf) # rest"
      "Command (Tx_loop (\<lceil>real_of_int 43202250000001 / 1000000000\<rceil> * 1000000000 + 1000000000)
                 (size tx_wf) 0 0) \<in> set rest"
      "status (main ?e3) =
         (if tx_loop (radio ?e3)
               (\<lceil>real_of_int 43202250000001 / 1000000000\<rceil> * 1000000000 + 1000000000)
               (size tx_wf) 0 0
          then Exit 0 else Exit 1)"
    by blast
  have tw: "tx_wf = example_waveform" using o(1) t(3) by simp
  have u1: "\<exists>evs rest.
      events (main ?e3) =
        evs @ Message Gaps_will_occur # Command (Put_tx_data example_waveform) # rest \<and>
      Command (Tx_loop 43204000000000 4 0 0) \<in> set rest"
    apply (rule exI [of _ evs])
    apply (rule exI [of _ rest])
    using o(2,3) unfolding tw g s by simp
  have u2: "status (main ?e3) = Exit 0"
    using o(4) t(4) unfolding tw g s by simp
  from h a b c d u1 u2 show ?thesis by blast
qed

text \<open>
  Claim C9. When the device gives no answer to \<open>hello\<close>, the check of the granularity
  does nothing, whatever the period, the number of samples and the granularity of the
  device: it gives no warning and does not end the run. No run gives the warning then, and
  a run that passes the check of the buffer goes straight on with the transmission.
  When the device then gives both readings of its time, the run uploads the waveform and
  issues the loop command, and it ends with status 0 when the device accepts the loop.
\<close>

theorem no_hello_no_gap_warning:
  assumes "hello (radio e) = None"
  shows "check_granularity e n = ([], Inr ()) \<and>
     Message Gaps_will_occur \<notin> set (events (main e)) \<and>
     (main_until_buffer e = (evs, Inr (n_pulses, tx_wf)) \<and>
      check_buffer e (size tx_wf) = ([], Inr ()) \<longrightarrow>
        main e =
          (case transmit e tx_wf (size tx_wf) n_pulses of
             (evs', Inr _) \<Rightarrow> (evs @ evs', Exit 0)
           | (evs', Inl Exception) \<Rightarrow> (evs @ evs' @ [Message Exception_caught], Exit 3)
           | (evs', Inl s) \<Rightarrow> (evs @ evs', s))) \<and>
     (main_until_buffer e = (evs, Inr (n_pulses, tx_wf)) \<and>
      check_buffer e (size tx_wf) = ([], Inr ()) \<and>
      get_time_now (radio e) 0 = Some t1 \<and> get_time_now (radio e) 1 = Some t2 \<longrightarrow>
        (\<exists>rest.
           events (main e) = evs @ Command (Put_tx_data tx_wf) # rest \<and>
           Command (Tx_loop (\<lceil>real_of_int t2 / 1000000000\<rceil> * 1000000000 + 1000000000)
                      (size tx_wf) (llround (1000000000 * pri (vm e))) n_pulses) \<in> set rest \<and>
           status (main e) =
             (if tx_loop (radio e) (\<lceil>real_of_int t2 / 1000000000\<rceil> * 1000000000 + 1000000000)
                   (size tx_wf) (llround (1000000000 * pri (vm e))) n_pulses
              then Exit 0 else Exit 1)))"
proof -
  have c: "check_granularity e n = ([], Inr ())" for n
    using assms by (simp add: check_granularity_def)
  have "Message Gaps_will_occur \<notin> set (events (main e))"
  proof
    assume "Message Gaps_will_occur \<in> set (events (main e))"
    from gap_message_origin [OF this] c show False by auto
  qed
  moreover have "main e =
          (case transmit e tx_wf (size tx_wf) n_pulses of
             (evs', Inr _) \<Rightarrow> (evs @ evs', Exit 0)
           | (evs', Inl Exception) \<Rightarrow> (evs @ evs' @ [Message Exception_caught], Exit 3)
           | (evs', Inl s) \<Rightarrow> (evs @ evs', s))"
    if b: "main_until_buffer e = (evs, Inr (n_pulses, tx_wf))"
      and cb: "check_buffer e (size tx_wf) = ([], Inr ())"
    using main_goes_on [OF b] cb c [of "size tx_wf"]
    by (simp add: main_from_buffer_def and_then_def split: prod.splits sum.splits stop.splits)
  moreover have "\<exists>rest.
           events (main e) = evs @ Command (Put_tx_data tx_wf) # rest \<and>
           Command (Tx_loop (\<lceil>real_of_int t2 / 1000000000\<rceil> * 1000000000 + 1000000000)
                      (size tx_wf) (llround (1000000000 * pri (vm e))) n_pulses) \<in> set rest \<and>
           status (main e) =
             (if tx_loop (radio e) (\<lceil>real_of_int t2 / 1000000000\<rceil> * 1000000000 + 1000000000)
                   (size tx_wf) (llround (1000000000 * pri (vm e))) n_pulses
              then Exit 0 else Exit 1)"
    if b: "main_until_buffer e = (evs, Inr (n_pulses, tx_wf))"
      and cb: "check_buffer e (size tx_wf) = ([], Inr ())"
      and t1: "get_time_now (radio e) 0 = Some t1"
      and t2: "get_time_now (radio e) 1 = Some t2"
  proof -
    have cb': "snd (check_buffer e (size tx_wf)) = Inr ()" using cb by simp
    have T: "(ceil_seconds t2 + 1) * nanoseconds_per_second
        = \<lceil>real_of_int t2 / 1000000000\<rceil> * 1000000000 + 1000000000"
      by (simp add: ceil_seconds_ceiling nanoseconds_per_second_def algebra_simps)
    from main_after_checks [OF b cb' c [of "size tx_wf"] t1 t2] show ?thesis
      unfolding T by simp
  qed
  ultimately show ?thesis using c [of n] by blast
qed

theorem no_hello_no_gap_warning_witness:
  "hello (radio (example_environment
           \<lparr>vm := example_options\<lparr>pri := 0\<rparr>,
            radio := example_radio\<lparr>hello := None,
              compute_sample_granularity := (\<lambda>w. 3)\<rparr>\<rparr>)) = None \<and>
   check_granularity (example_environment
           \<lparr>vm := example_options\<lparr>pri := 0\<rparr>,
            radio := example_radio\<lparr>hello := None,
              compute_sample_granularity := (\<lambda>w. 3)\<rparr>\<rparr>) 4 = ([], Inr ()) \<and>
   Message Gaps_will_occur \<notin> set (events (main (example_environment
           \<lparr>vm := example_options\<lparr>pri := 0\<rparr>,
            radio := example_radio\<lparr>hello := None,
              compute_sample_granularity := (\<lambda>w. 3)\<rparr>\<rparr>))) \<and>
   (\<exists>rest.
      events (main (example_environment
           \<lparr>vm := example_options\<lparr>pri := 0\<rparr>,
            radio := example_radio\<lparr>hello := None,
              compute_sample_granularity := (\<lambda>w. 3)\<rparr>\<rparr>)) =
        [Sleep_until 43200800000000, Command (Set_time_next_pps 43201000000000),
         Command (Set_tx_rate 1000000), Command (Set_tx_freq 2400000000),
         Command (Set_tx_gain 0)] @ Command (Put_tx_data example_waveform) # rest \<and>
      Command (Tx_loop 43204000000000 4 0 0) \<in> set rest) \<and>
   status (main (example_environment
           \<lparr>vm := example_options\<lparr>pri := 0\<rparr>,
            radio := example_radio\<lparr>hello := None,
              compute_sample_granularity := (\<lambda>w. 3)\<rparr>\<rparr>)) = Exit 0"
proof -
  let ?e = "example_environment
           \<lparr>vm := example_options\<lparr>pri := 0\<rparr>,
            radio := example_radio\<lparr>hello := None,
              compute_sample_granularity := (\<lambda>w. 3)\<rparr>\<rparr>"
  let ?evs = "[Sleep_until 43200800000000, Command (Set_time_next_pps 43201000000000),
         Command (Set_tx_rate 1000000), Command (Set_tx_freq 2400000000),
         Command (Set_tx_gain 0)]"
  have h: "hello (radio ?e) = None" by simp
  have u: "main_until_buffer ?e = (?evs, Inr (0, example_waveform))"
    by (simp add: main_until_buffer_def run_defs)
  have cb: "check_buffer ?e (size example_waveform) = ([], Inr ())"
    by (simp add: check_buffer_def example_environment_def example_radio_def
        example_waveform_def)
  have t: "get_time_now (radio ?e) 0 = Some 43202250000000"
    "get_time_now (radio ?e) 1 = Some 43202250000001"
    "tx_loop (radio ?e) 43204000000000 4 0 0"
    "pri (vm ?e) = 0"
    by (simp_all add: example_radio_def example_environment_def)
  have g: "(\<lceil>real_of_int 43202250000001 / 1000000000\<rceil> * 1000000000 + 1000000000 :: int)
      = 43204000000000"
    by (simp add: ceiling_eq_iff)
  have s: "size example_waveform = 4" by (simp add: example_waveform_def)
  have z: "llround (1000000000 * pri (vm ?e)) = 0" by (simp add: t(4) llround_def)
  note w = no_hello_no_gap_warning [OF h, of 4 ?evs 0 example_waveform
      43202250000000 43202250000001]
  have x: "(\<exists>rest.
      events (main ?e) = ?evs @ Command (Put_tx_data example_waveform) # rest \<and>
      Command (Tx_loop 43204000000000 4 0 0) \<in> set rest) \<and>
      status (main ?e) = Exit 0"
    using w u cb t(1,2,3) unfolding g z s by auto
  from h w x show ?thesis by blast
qed




text \<open>
  Claim C1. The device accepts three of the four samples of the waveform: the run reports
  the error of sending, and then issues the loop command all the same, waits, and ends
  with status 0.
\<close>

theorem incomplete_upload_still_loops:
  "main (example_environment\<lparr>radio := example_radio\<lparr>put_tx_data := (\<lambda>d. 3)\<rparr>\<rparr>) =
     ([Sleep_until 43200800000000, Command (Set_time_next_pps 43201000000000),
       Command (Set_tx_rate 1000000), Command (Set_tx_freq 2400000000),
       Command (Set_tx_gain 0), Command (Put_tx_data example_waveform),
       Message Error_sending_waveform_data,
       Command (Tx_loop 43204000000000 4 2000000000 5), Sleep_until 43214100000000],
      Exit 0)"
  by (simp add: run_defs)

end
